theory Spec2Isabelle
  imports Main "HOL-Library.Signed_Division"
begin

section \<open>JavaScript values used by the components\<close>

text \<open>
  Selection indices are JavaScript numbers. They only ever hold integers or, after a
  remainder by a zero length, \<open>NaN\<close>. The remainder operator \<open>%\<close> truncates towards
  zero (the sign follows the dividend), which is \<open>smod\<close> on \<open>int\<close>; JavaScript's \<open>-0\<close>
  is identified with \<open>0\<close>, as array indexing and \<open>===\<close> do.
\<close>

datatype jsnum = NaN | Num int

fun js_add :: "jsnum \<Rightarrow> jsnum \<Rightarrow> jsnum" where
  "js_add (Num a) (Num b) = Num (a + b)"
| "js_add _ _ = NaN"

fun js_sub :: "jsnum \<Rightarrow> jsnum \<Rightarrow> jsnum" where
  "js_sub (Num a) (Num b) = Num (a - b)"
| "js_sub _ _ = NaN"

fun js_rem :: "jsnum \<Rightarrow> jsnum \<Rightarrow> jsnum" where
  "js_rem (Num a) (Num b) = (if b = 0 then NaN else Num (a smod b))"
| "js_rem _ _ = NaN"

text \<open>\<open>xs[i]\<close>: \<open>undefined\<close> (here \<open>None\<close>) outside \<open>0 .. length - 1\<close> and at \<open>NaN\<close>.\<close>

fun js_nth :: "'a list \<Rightarrow> jsnum \<Rightarrow> 'a option" where
  "js_nth xs (Num i) = (if 0 \<le> i \<and> i < int (length xs) then Some (xs ! nat i) else None)"
| "js_nth xs NaN = None"

definition js_length :: "'a list \<Rightarrow> jsnum" where
  "js_length xs = Num (int (length xs))"

text \<open>\<open>Array.prototype.findIndex\<close>: the first position satisfying the predicate, else \<open>-1\<close>.\<close>

fun findIndex :: "('a \<Rightarrow> bool) \<Rightarrow> 'a list \<Rightarrow> int" where
  "findIndex P [] = -1"
| "findIndex P (x # xs) =
     (if P x then 0 else (let r = findIndex P xs in if r < 0 then -1 else r + 1))"

text \<open>\<open>a ?? b\<close> on possibly undefined values.\<close>

fun nullish :: "'a option \<Rightarrow> 'a option \<Rightarrow> 'a option" where
  "nullish (Some a) _ = Some a"
| "nullish None b = b"

text \<open>
  A handler either runs to its end or throws a \<open>TypeError\<close> on a property read of
  \<open>undefined\<close>; the state carried is the one with the updates enqueued up to that point.
\<close>

datatype 's outcome = Done 's | TypeError 's

fun after :: "'s outcome \<Rightarrow> 's" where
  "after (Done s) = s"
| "after (TypeError s) = s"

fun threw :: "'s outcome \<Rightarrow> bool" where
  "threw (Done s) = False"
| "threw (TypeError s) = True"

datatype Key = ArrowUp | ArrowDown | ArrowLeft | ArrowRight | Enter | Escape | OtherKey

section \<open>App.tsx: configuration and themes\<close>

record ConfigEntry =
  entry_id :: string
  entry_name :: string
  entry_icon :: string
  badge :: "string option"
  url :: "string option"

record ConfigAction =
  action_id :: string
  action_name :: string
  action_icon :: string

datatype ThemeType = Builtin | Clover

datatype ThemeStyle = Classic | Modern | CloverStyle

text \<open>
  The configuration is the parsed body of config.json, and the annotation
  \<open>data: Config\<close> on it is not checked at run time. Two fields are dereferenced without a
  guard and may be absent in a body that is valid JSON: \<open>themes\<close> of the configuration
  (\<open>data.themes.map\<close>) and \<open>entries\<close> of a theme (\<open>defaultTheme?.entries[0]\<close>). For
  these \<open>None\<close> stands for \<open>undefined\<close> or \<open>null\<close>. A missing \<open>defaultTheme\<close> is falsy
  like the empty string and is not told apart from it.
\<close>

record ConfigTheme =
  theme_id :: string
  label :: string
  theme_type :: ThemeType
  background :: string
  logo :: "string option"
  entries :: "ConfigEntry list option"
  actions :: "ConfigAction list"

record Theme = ConfigTheme +
  style :: ThemeStyle

record Config =
  defaultTheme :: string
  cfg_themes :: "ConfigTheme list option"
  cloverThemes :: "string list option"

definition buildCloverTheme :: "string \<Rightarrow> Theme" where
  "buildCloverTheme themeName =
     (let basePath = ''themes/'' @ themeName in
      \<lparr> theme_id = ''clover-'' @ themeName,
        label = themeName,
        theme_type = Clover,
        background = basePath @ ''/background.png'',
        logo = Some (basePath @ ''/icons/logo.png''),
        entries = Some
          [ \<lparr> entry_id = ''macos'', entry_name = ''macOS'',
              entry_icon = basePath @ ''/icons/os_mac.icns'', badge = None, url = Some [] \<rparr>,
            \<lparr> entry_id = ''windows'', entry_name = ''Windows'',
              entry_icon = basePath @ ''/icons/os_win.icns'', badge = None, url = Some [] \<rparr> ],
        actions =
          [ \<lparr> action_id = ''shell'', action_name = ''UEFI Shell'',
              action_icon = basePath @ ''/icons/tool_shell.png'' \<rparr>,
            \<lparr> action_id = ''clover'', action_name = ''Clover Config'',
              action_icon = basePath @ ''/icons/func_clover.png'' \<rparr>,
            \<lparr> action_id = ''about'', action_name = ''About Clover'',
              action_icon = basePath @ ''/icons/func_about.png'' \<rparr>,
            \<lparr> action_id = ''options'', action_name = ''Options'',
              action_icon = basePath @ ''/icons/func_options.png'' \<rparr>,
            \<lparr> action_id = ''reset'', action_name = ''Reset'',
              action_icon = basePath @ ''/icons/func_reset.png'' \<rparr>,
            \<lparr> action_id = ''shutdown'', action_name = ''Shutdown'',
              action_icon = basePath @ ''/icons/func_shutdown.png'' \<rparr> ],
        style = CloverStyle \<rparr>)"

definition getThemeStyle :: "ConfigTheme \<Rightarrow> ThemeStyle" where
  "getThemeStyle theme =
     (if theme_type theme = Clover then CloverStyle
      else if theme_id theme = ''classic'' then Classic
      else Modern)"

text \<open>The object spread \<open>{ ...t, style: getThemeStyle(t) }\<close>.\<close>

definition withStyle :: "ConfigTheme \<Rightarrow> Theme" where
  "withStyle t =
     \<lparr> theme_id = theme_id t, label = label t, theme_type = theme_type t,
       background = background t, logo = logo t, entries = entries t,
       actions = actions t, style = getThemeStyle t \<rparr>"

text \<open>
  \<open>allThemes\<close> of the fetch callback, for the array \<open>data.themes\<close> and the optional
  \<open>data.cloverThemes\<close>; an absent \<open>cloverThemes\<close> is \<open>undefined || []\<close>.
\<close>

definition allThemes :: "ConfigTheme list \<Rightarrow> string list option \<Rightarrow> Theme list" where
  "allThemes ts names =
     (let builtinThemes = map withStyle ts;
          cloverThemes = map buildCloverTheme
            (case names of None \<Rightarrow> [] | Some ns \<Rightarrow> ns)
      in builtinThemes @ cloverThemes)"

section \<open>App.tsx: the configurable boot picker\<close>

datatype Row = EntriesRow | ActionsRow

text \<open>
  The \<open>useState\<close> cells of \<open>App\<close>, together with what the component has handed to the
  browser: whether the \<open>fetch\<close> of \<open>config.json\<close> issued on mount is still in flight, the
  pending \<open>setTimeout\<close> callbacks of \<open>bootEntry\<close> (each with the URL it will assign) and
  the last URL assigned to \<open>window.location.href\<close>.
\<close>

record app_state =
  config :: "Config option"
  themes :: "Theme list"
  themeId :: string
  selectedIndex :: jsnum
  status :: string
  activeRow :: Row
  actionIndex :: jsnum
  showOptions :: bool
  optionIndex :: jsnum
  fetchPending :: bool
  navTimers :: "string list"
  location :: "string option"

definition app_init :: app_state where
  "app_init =
     \<lparr> config = None, themes = [], themeId = ''classic'', selectedIndex = Num 0,
       status = ''Loading...'', activeRow = EntriesRow, actionIndex = Num 0,
       showOptions = False, optionIndex = Num 0, fetchPending = True,
       navTimers = [], location = None \<rparr>"

text \<open>\<open>themes.find((item) => item.id === themeId) ?? themes[0]\<close>\<close>

definition theme_of :: "app_state \<Rightarrow> Theme option" where
  "theme_of s =
     nullish (find (\<lambda>item. theme_id item = themeId s) (themes s)) (js_nth (themes s) (Num 0))"

text \<open>\<open>theme?.entries ?? []\<close> and \<open>theme?.actions ?? []\<close>\<close>

definition entries_of :: "app_state \<Rightarrow> ConfigEntry list" where
  "entries_of s =
     (case theme_of s of
        None \<Rightarrow> []
      | Some t \<Rightarrow> (case entries t of None \<Rightarrow> [] | Some es \<Rightarrow> es))"

definition actions_of :: "app_state \<Rightarrow> ConfigAction list" where
  "actions_of s = (case theme_of s of None \<Rightarrow> [] | Some t \<Rightarrow> actions t)"

text \<open>
  The callback of the mount effect that receives the parsed body. It throws a
  \<open>TypeError\<close> at \<open>data.themes.map\<close> when \<open>themes\<close> is absent, after \<open>setConfig\<close> only, and
  at \<open>defaultTheme?.entries[0]\<close> when the default theme has no \<open>entries\<close>, after
  \<open>setThemes\<close> and \<open>setThemeId\<close>; the updates enqueued before the throw are kept.
\<close>

definition fetchResolved :: "Config \<Rightarrow> app_state \<Rightarrow> app_state outcome" where
  "fetchResolved data s =
     (let s0 = s\<lparr> config := Some data \<rparr>
      in case cfg_themes data of
           None \<Rightarrow> TypeError s0
         | Some ts \<Rightarrow>
             (let all = allThemes ts (cloverThemes data);
                  defaultId = (if defaultTheme data = [] then ''classic'' else defaultTheme data);
                  s1 = s0\<lparr> themes := all, themeId := defaultId \<rparr>;
                  defaultTheme =
                    nullish (find (\<lambda>t. theme_id t = defaultId) all) (js_nth all (Num 0))
              in case defaultTheme of
                   None \<Rightarrow> Done s1
                 | Some t \<Rightarrow>
                     (case entries t of
                        None \<Rightarrow> TypeError s1
                      | Some es \<Rightarrow>
                          (case js_nth es (Num 0) of
                             None \<Rightarrow> Done s1
                           | Some e \<Rightarrow> Done (s1\<lparr> status := ''Boot '' @ entry_name e \<rparr>)))))"

text \<open>
  The \<open>.catch\<close> handler at the end of the promise chain. It runs when the request or
  the JSON parse is rejected and also when the callback above throws.
\<close>

definition fetchRejected :: "app_state \<Rightarrow> app_state" where
  "fetchRejected s = s\<lparr> status := ''Failed to load config'' \<rparr>"

text \<open>
  The effect with dependencies \<open>[themeId, themes.length]\<close> and the one with dependencies
  \<open>[selectedIndex, activeRow, themeId]\<close>. Each reads the values of the render \<open>r\<close> that
  created it and enqueues its updates on \<open>s\<close>.
\<close>

definition resetEffect :: "app_state \<Rightarrow> app_state \<Rightarrow> app_state" where
  "resetEffect r s =
     (case theme_of r of
        None \<Rightarrow> s
      | Some t \<Rightarrow>
          (let s1 = s\<lparr> selectedIndex := Num 0, actionIndex := Num 0, activeRow := EntriesRow \<rparr>
           in case js_nth (entries_of r) (Num 0) of
                None \<Rightarrow> s1
              | Some firstEntry \<Rightarrow> s1\<lparr> status := ''Boot '' @ entry_name firstEntry \<rparr>))"

definition statusEffect :: "app_state \<Rightarrow> app_state \<Rightarrow> app_state" where
  "statusEffect r s =
     (case theme_of r of
        None \<Rightarrow> s
      | Some t \<Rightarrow>
          (case nullish (js_nth (entries_of r) (selectedIndex r)) (js_nth (entries_of r) (Num 0)) of
             None \<Rightarrow> s
           | Some entry \<Rightarrow>
               if activeRow r = EntriesRow then s\<lparr> status := ''Boot '' @ entry_name entry \<rparr>
               else s))"

text \<open>
  One commit: \<open>p\<close> is the previous render, \<open>r\<close> the new one; the effects whose
  dependencies differ run in source order. Neither effect writes \<open>themeId\<close> or \<open>themes\<close>
  and the second writes only \<open>status\<close>, so a second commit reaches the fixed point.
\<close>

definition runEffects :: "app_state \<Rightarrow> app_state \<Rightarrow> app_state" where
  "runEffects p r =
     (let s1 = (if themeId r \<noteq> themeId p \<or> length (themes r) \<noteq> length (themes p)
                then resetEffect r r else r)
      in if selectedIndex r \<noteq> selectedIndex p \<or> activeRow r \<noteq> activeRow p
            \<or> themeId r \<noteq> themeId p
         then statusEffect r s1 else s1)"

definition settle :: "app_state \<Rightarrow> app_state \<Rightarrow> app_state" where
  "settle p r = (let s = runEffects p r in runEffects r s)"

definition bootEntry :: "ConfigEntry \<Rightarrow> app_state \<Rightarrow> app_state" where
  "bootEntry entry s =
     (case url entry of
        Some (c # cs) \<Rightarrow>
          s\<lparr> status := ''Booting '' @ entry_name entry @ '' ...'',
             navTimers := navTimers s @ [c # cs] \<rparr>
      | _ \<Rightarrow> s\<lparr> status := ''Boot '' @ entry_name entry @ '' (no URL configured)'' \<rparr>)"

text \<open>The \<open>(current) => ...\<close> updaters of the key handler.\<close>

definition prevIndex :: "jsnum \<Rightarrow> 'a list \<Rightarrow> jsnum" where
  "prevIndex current xs = js_rem (js_add (js_sub current (Num 1)) (js_length xs)) (js_length xs)"

definition nextIndex :: "jsnum \<Rightarrow> 'a list \<Rightarrow> jsnum" where
  "nextIndex current xs = js_rem (js_add current (Num 1)) (js_length xs)"

definition openOptions :: "app_state \<Rightarrow> app_state" where
  "openOptions s =
     s\<lparr> showOptions := True,
        optionIndex := Num (findIndex (\<lambda>t. theme_id t = themeId s) (themes s)) \<rparr>"

definition handleKey :: "app_state \<Rightarrow> Key \<Rightarrow> app_state outcome" where
  "handleKey s k =
     (if showOptions s then
        (case k of
           ArrowUp \<Rightarrow> Done (s\<lparr> optionIndex := prevIndex (optionIndex s) (themes s) \<rparr>)
         | ArrowDown \<Rightarrow> Done (s\<lparr> optionIndex := nextIndex (optionIndex s) (themes s) \<rparr>)
         | Enter \<Rightarrow>
             (case js_nth (themes s) (optionIndex s) of
                None \<Rightarrow> TypeError s
              | Some t \<Rightarrow> Done (s\<lparr> themeId := theme_id t, showOptions := False \<rparr>))
         | Escape \<Rightarrow> Done (s\<lparr> showOptions := False \<rparr>)
         | _ \<Rightarrow> Done s)
      else
        (case k of
           ArrowLeft \<Rightarrow>
             (if activeRow s = EntriesRow
              then Done (s\<lparr> selectedIndex := prevIndex (selectedIndex s) (entries_of s) \<rparr>)
              else Done (s\<lparr> actionIndex := prevIndex (actionIndex s) (actions_of s) \<rparr>))
         | ArrowRight \<Rightarrow>
             (if activeRow s = EntriesRow
              then Done (s\<lparr> selectedIndex := nextIndex (selectedIndex s) (entries_of s) \<rparr>)
              else Done (s\<lparr> actionIndex := nextIndex (actionIndex s) (actions_of s) \<rparr>))
         | ArrowDown \<Rightarrow>
             (case js_nth (actions_of s) (actionIndex s) of
                None \<Rightarrow> Done (s\<lparr> activeRow := ActionsRow \<rparr>)
              | Some action \<Rightarrow> Done (s\<lparr> activeRow := ActionsRow, status := action_name action \<rparr>))
         | ArrowUp \<Rightarrow>
             (case js_nth (entries_of s) (selectedIndex s) of
                None \<Rightarrow> Done (s\<lparr> activeRow := EntriesRow \<rparr>)
              | Some entry \<Rightarrow>
                  Done (s\<lparr> activeRow := EntriesRow, status := ''Boot '' @ entry_name entry \<rparr>))
         | Enter \<Rightarrow>
             (if activeRow s = EntriesRow then
                (case js_nth (entries_of s) (selectedIndex s) of
                   None \<Rightarrow> Done s
                 | Some entry \<Rightarrow> Done (bootEntry entry s))
              else
                (case js_nth (actions_of s) (actionIndex s) of
                   None \<Rightarrow> Done s
                 | Some action \<Rightarrow>
                     if action_id action = ''options'' then Done (openOptions s)
                     else Done (s\<lparr> status := action_name action \<rparr>)))
         | _ \<Rightarrow> Done s))"

text \<open>
  What can happen to the mounted component: the fetch settles, a key goes down, one of
  the rendered buttons is clicked, or a pending \<open>bootEntry\<close> timer fires. \<open>Fetched None\<close>
  is a rejected request or a body that is not JSON, \<open>Fetched (Some data)\<close> a body that
  parsed.
\<close>

datatype app_event =
    Fetched "Config option"
  | KeyDown Key
  | ClickEntry nat
  | DblClickEntry nat
  | ClickAction nat
  | ClickOverlay
  | ClickOption nat
  | NavTimer string

text \<open>
  The handler proper of each event. A throw of the fetch callback is caught by the
  \<open>.catch\<close> of the same promise chain. The key listener is registered and the buttons
  are rendered only while a theme is defined; the modal's buttons only while it is
  shown.
\<close>

definition dispatch :: "app_state \<Rightarrow> app_event \<Rightarrow> app_state outcome" where
  "dispatch s e =
     (case e of
        Fetched r \<Rightarrow>
          (if fetchPending s then
             (case r of
                Some data \<Rightarrow>
                  (case fetchResolved data (s\<lparr> fetchPending := False \<rparr>) of
                     Done s1 \<Rightarrow> Done s1
                   | TypeError s1 \<Rightarrow> Done (fetchRejected s1))
              | None \<Rightarrow> Done (fetchRejected (s\<lparr> fetchPending := False \<rparr>)))
           else Done s)
      | NavTimer u \<Rightarrow>
          (if u \<in> set (navTimers s)
           then Done (s\<lparr> navTimers := remove1 u (navTimers s), location := Some u \<rparr>)
           else Done s)
      | _ \<Rightarrow>
          (if theme_of s = None then Done s
           else
             (case e of
                KeyDown k \<Rightarrow> handleKey s k
              | ClickEntry i \<Rightarrow>
                  (if i < length (entries_of s)
                   then Done (s\<lparr> activeRow := EntriesRow, selectedIndex := Num (int i) \<rparr>)
                   else Done s)
              | DblClickEntry i \<Rightarrow>
                  (if i < length (entries_of s) then Done (bootEntry (entries_of s ! i) s)
                   else Done s)
              | ClickAction i \<Rightarrow>
                  (if i < length (actions_of s) then
                     (let action = actions_of s ! i;
                          s1 = s\<lparr> activeRow := ActionsRow, actionIndex := Num (int i),
                                  status := action_name action \<rparr>
                      in if action_id action = ''options''
                         then Done (openOptions s1) else Done s1)
                   else Done s)
              | ClickOverlay \<Rightarrow>
                  (if showOptions s then Done (s\<lparr> showOptions := False \<rparr>) else Done s)
              | ClickOption i \<Rightarrow>
                  (if showOptions s \<and> i < length (themes s)
                   then Done (s\<lparr> themeId := theme_id (themes s ! i), showOptions := False \<rparr>)
                   else Done s)
              | _ \<Rightarrow> Done s)))"

definition app_step :: "app_state \<Rightarrow> app_event \<Rightarrow> app_state" where
  "app_step s e = settle s (after (dispatch s e))"

definition app_run :: "app_event list \<Rightarrow> app_state" where
  "app_run es = foldl app_step app_init es"

text \<open>What the component returns: the loading screen or the themed screen.\<close>

datatype view = LoadingScreen string | ThemeScreen Theme string

definition render :: "app_state \<Rightarrow> view" where
  "render s = (case theme_of s of
                 None \<Rightarrow> LoadingScreen (status s)
               | Some t \<Rightarrow> ThemeScreen t (status s))"

section \<open>App.tsx, second document: the picker with built-in themes\<close>

record Entry =
  e_id :: string
  e_name :: string
  baseIcon :: string
  badgeIcon :: "string option"

record Action =
  a_id :: string
  a_name :: string
  a_icon :: string

datatype StaticThemeId = ClassicId | ModernDark | ModernLight

datatype StaticStyle = StyleClassic | StyleModern

record StaticTheme =
  st_id :: StaticThemeId
  st_label :: string
  st_style :: StaticStyle
  st_background :: string
  st_entries :: "Entry list"
  st_actions :: "Action list"

definition static_themes :: "StaticTheme list" where
  "static_themes =
   [ \<lparr> st_id = ClassicId, st_label = ''Classic'', st_style = StyleClassic,
       st_background = ''/assets/bg-tonymac.png'',
       st_entries =
         [ \<lparr> e_id = ''hfs'', e_name = ''HFS'', baseIcon = ''/assets/vol_internal_hfs.png'',
             badgeIcon = Some ''/assets/os_lion.png'' \<rparr>,
           \<lparr> e_id = ''recovery'', e_name = ''RECOVERY'',
             baseIcon = ''/assets/vol_internal_hfs.png'',
             badgeIcon = Some ''/assets/os_winxp.png'' \<rparr> ],
       st_actions =
         [ \<lparr> a_id = ''shell'', a_name = ''UEFI Shell'', a_icon = ''/assets/tool_shell.png'' \<rparr>,
           \<lparr> a_id = ''clover'', a_name = ''Clover Config'', a_icon = ''/assets/func_clover.png'' \<rparr>,
           \<lparr> a_id = ''about'', a_name = ''About Clover'', a_icon = ''/assets/func_about.png'' \<rparr>,
           \<lparr> a_id = ''options'', a_name = ''Options'', a_icon = ''/assets/func_options.png'' \<rparr>,
           \<lparr> a_id = ''reset'', a_name = ''Reset'', a_icon = ''/assets/func_reset.png'' \<rparr>,
           \<lparr> a_id = ''shutdown'', a_name = ''Shutdown'', a_icon = ''/assets/func_shutdown.png'' \<rparr> ] \<rparr>,
     \<lparr> st_id = ModernDark, st_label = ''Modern Dark'', st_style = StyleModern,
       st_background = ''/assets/bg-modern-dark.png'',
       st_entries =
         [ \<lparr> e_id = ''mac'', e_name = ''macOS'', baseIcon = ''/assets/modern-dark-os-mac.png'',
             badgeIcon = None \<rparr>,
           \<lparr> e_id = ''win'', e_name = ''Windows'', baseIcon = ''/assets/modern-dark-os-win.png'',
             badgeIcon = None \<rparr> ],
       st_actions =
         [ \<lparr> a_id = ''shell'', a_name = ''UEFI Shell'',
             a_icon = ''/assets/modern-dark-tool_shell.png'' \<rparr>,
           \<lparr> a_id = ''clover'', a_name = ''Clover Config'',
             a_icon = ''/assets/modern-dark-func_clover.png'' \<rparr>,
           \<lparr> a_id = ''about'', a_name = ''About Clover'',
             a_icon = ''/assets/modern-dark-func_about.png'' \<rparr>,
           \<lparr> a_id = ''options'', a_name = ''Options'',
             a_icon = ''/assets/modern-dark-func_options.png'' \<rparr>,
           \<lparr> a_id = ''reset'', a_name = ''Reset'',
             a_icon = ''/assets/modern-dark-func_reset.png'' \<rparr>,
           \<lparr> a_id = ''shutdown'', a_name = ''Shutdown'',
             a_icon = ''/assets/modern-dark-func_shutdown.png'' \<rparr> ] \<rparr>,
     \<lparr> st_id = ModernLight, st_label = ''Modern Light'', st_style = StyleModern,
       st_background = ''/assets/bg-modern-light.png'',
       st_entries =
         [ \<lparr> e_id = ''mac'', e_name = ''macOS'', baseIcon = ''/assets/modern-light-os-mac.png'',
             badgeIcon = None \<rparr>,
           \<lparr> e_id = ''win'', e_name = ''Windows'', baseIcon = ''/assets/modern-light-os-win.png'',
             badgeIcon = None \<rparr> ],
       st_actions =
         [ \<lparr> a_id = ''shell'', a_name = ''UEFI Shell'',
             a_icon = ''/assets/modern-light-tool_shell.png'' \<rparr>,
           \<lparr> a_id = ''clover'', a_name = ''Clover Config'',
             a_icon = ''/assets/modern-light-func_clover.png'' \<rparr>,
           \<lparr> a_id = ''about'', a_name = ''About Clover'',
             a_icon = ''/assets/modern-light-func_about.png'' \<rparr>,
           \<lparr> a_id = ''options'', a_name = ''Options'',
             a_icon = ''/assets/modern-light-func_options.png'' \<rparr>,
           \<lparr> a_id = ''reset'', a_name = ''Reset'',
             a_icon = ''/assets/modern-light-func_reset.png'' \<rparr>,
           \<lparr> a_id = ''shutdown'', a_name = ''Shutdown'',
             a_icon = ''/assets/modern-light-func_shutdown.png'' \<rparr> ] \<rparr> ]"

record static_state =
  st_themeId :: StaticThemeId
  st_selectedIndex :: jsnum
  st_status :: string
  st_activeRow :: Row
  st_actionIndex :: jsnum

text \<open>\<open>themes.find((item) => item.id === themeId) ?? themes[0]\<close>; the list is never empty.\<close>

definition static_theme :: "static_state \<Rightarrow> StaticTheme" where
  "static_theme s =
     (case find (\<lambda>item. st_id item = st_themeId s) static_themes of
        Some t \<Rightarrow> t
      | None \<Rightarrow> hd static_themes)"

definition moveEntries :: "int \<Rightarrow> static_state \<Rightarrow> static_state" where
  "moveEntries delta s =
     (let total = js_length (st_entries (static_theme s))
      in s\<lparr> st_selectedIndex :=
             js_rem (js_add (js_add (st_selectedIndex s) (Num delta)) total) total \<rparr>)"

definition moveActions :: "int \<Rightarrow> static_state \<Rightarrow> static_state" where
  "moveActions delta s =
     (let total = js_length (st_actions (static_theme s))
      in s\<lparr> st_actionIndex :=
             js_rem (js_add (js_add (st_actionIndex s) (Num delta)) total) total \<rparr>)"

definition static_handleKey :: "static_state \<Rightarrow> Key \<Rightarrow> static_state outcome" where
  "static_handleKey s k =
     (case k of
        ArrowLeft \<Rightarrow>
          (if st_activeRow s = EntriesRow then Done (moveEntries (-1) s)
           else Done (moveActions (-1) s))
      | ArrowRight \<Rightarrow>
          (if st_activeRow s = EntriesRow then Done (moveEntries 1 s)
           else Done (moveActions 1 s))
      | ArrowDown \<Rightarrow>
          (case js_nth (st_actions (static_theme s)) (st_actionIndex s) of
             None \<Rightarrow> TypeError (s\<lparr> st_activeRow := ActionsRow \<rparr>)
           | Some action \<Rightarrow> Done (s\<lparr> st_activeRow := ActionsRow, st_status := a_name action \<rparr>))
      | ArrowUp \<Rightarrow>
          (case js_nth (st_entries (static_theme s)) (st_selectedIndex s) of
             None \<Rightarrow> TypeError (s\<lparr> st_activeRow := EntriesRow \<rparr>)
           | Some entry \<Rightarrow>
               Done (s\<lparr> st_activeRow := EntriesRow, st_status := ''Boot '' @ e_name entry \<rparr>))
      | Enter \<Rightarrow>
          (if st_activeRow s = EntriesRow then
             (case js_nth (st_entries (static_theme s)) (st_selectedIndex s) of
                None \<Rightarrow> TypeError s
              | Some entry \<Rightarrow> Done (s\<lparr> st_status := ''Booting '' @ e_name entry @ '' ...'' \<rparr>))
           else
             (case js_nth (st_actions (static_theme s)) (st_actionIndex s) of
                None \<Rightarrow> TypeError s
              | Some action \<Rightarrow> Done (s\<lparr> st_status := a_name action \<rparr>)))
      | _ \<Rightarrow> Done s)"

section \<open>XPBootScreen: the boot simulation\<close>

datatype BootPhase = Post | Bootloader | Boot | Login | LoggingIn | Desktop

record User =
  user_id :: string
  user_name :: string
  avatar :: string

definition defaultUsers :: "User list" where
  "defaultUsers =
     [ \<lparr> user_id = ''1'', user_name = ''Administrator'',
         avatar = ''xp/images/user/astronaut.png'' \<rparr>,
       \<lparr> user_id = ''2'', user_name = ''Guest'', avatar = ''xp/images/user/butterfly.png'' \<rparr> ]"

definition bootOptions :: "(string \<times> string) list" where
  "bootOptions =
     [ (''start'', ''Start Windows XP''), (''safemode'', ''Safe Mode''),
       (''lastknown'', ''Last Known Good Configuration'') ]"

text \<open>
  The timers the component hands to the browser, named after the constants and the
  callback that hold them. A timer is pending from \<open>setTimeout\<close>/\<open>setInterval\<close> until it
  is cleared or, for a timeout, until it has fired.
\<close>

datatype timer =
    MemoryInterval
  | AddLinesTimeout
  | TransitionTimeout
  | CountdownInterval
  | BootTimer
  | LoginTimeout User

text \<open>
  The \<open>useState\<close> cells (the memory counter of the POST animation, a floating-point
  accumulation that no transition reads, is left out), the pending timers, whether the
  component is still mounted, and the calls made to the \<open>onLogin\<close> and \<open>onExit\<close> props.
\<close>

record xp_state =
  phase :: BootPhase
  selectedUser :: "User option"
  loggingInUser :: "User option"
  postLines :: "string list"
  bootloaderIndex :: jsnum
  countdown :: int
  timers :: "timer list"
  mounted :: bool
  loginCalls :: "User list"
  exitCalls :: nat

text \<open>The timers each phase's effect creates, and clears again in its cleanup.\<close>

fun effectTimers :: "BootPhase \<Rightarrow> timer list" where
  "effectTimers Post = [MemoryInterval, AddLinesTimeout, TransitionTimeout]"
| "effectTimers Bootloader = [CountdownInterval]"
| "effectTimers Boot = [BootTimer]"
| "effectTimers _ = []"

text \<open>
  \<open>setPhase\<close> followed by the commit: every timer effect lists \<open>phase\<close> among its
  dependencies, so a changed phase runs the cleanups of the old phase's effect and then
  the effect of the new phase. Setting the phase it already has renders nothing.
\<close>

definition setPhase :: "BootPhase \<Rightarrow> xp_state \<Rightarrow> xp_state" where
  "setPhase p s =
     (if p = phase s then s
      else s\<lparr> phase := p,
              timers := filter (\<lambda>t. t \<notin> set (effectTimers (phase s))) (timers s)
                        @ effectTimers p \<rparr>)"

definition xp_mount :: xp_state where
  "xp_mount =
     \<lparr> phase = Post, selectedUser = None, loggingInUser = None,
       postLines =
         [ ''Award Modular BIOS v4.51PG, An Energy Star Ally'',
           ''Copyright (C) 1984-2025, Award Software, Inc.'',
           [],
           ''Main Processor : Intel(R) Pentium(R) 4 CPU 2.80GHz'',
           [] ],
       bootloaderIndex = Num 0, countdown = 5, timers = effectTimers Post,
       mounted = True, loginCalls = [], exitCalls = 0 \<rparr>"

definition handleLogin :: "User \<Rightarrow> xp_state \<Rightarrow> xp_state" where
  "handleLogin user s =
     (let s1 = setPhase LoggingIn (s\<lparr> loggingInUser := Some user \<rparr>)
      in s1\<lparr> timers := timers s1 @ [LoginTimeout user] \<rparr>)"

definition handleUserClick :: "User \<Rightarrow> xp_state \<Rightarrow> xp_state" where
  "handleUserClick user s =
     (case selectedUser s of
        Some u \<Rightarrow> if user_id u = user_id user then handleLogin user s
                  else s\<lparr> selectedUser := Some user \<rparr>
      | None \<Rightarrow> s\<lparr> selectedUser := Some user \<rparr>)"

definition handleKeyDown :: "User list \<Rightarrow> xp_state \<Rightarrow> Key \<Rightarrow> xp_state" where
  "handleKeyDown users s k =
     (if k = Escape then s\<lparr> exitCalls := Suc (exitCalls s) \<rparr>
      else if phase s = Bootloader then
        (case k of
           ArrowUp \<Rightarrow> s\<lparr> bootloaderIndex := prevIndex (bootloaderIndex s) bootOptions \<rparr>
         | ArrowDown \<Rightarrow> s\<lparr> bootloaderIndex := nextIndex (bootloaderIndex s) bootOptions \<rparr>
         | Enter \<Rightarrow> setPhase Boot s
         | _ \<Rightarrow> s)
      else if phase s = Login then
        (if k = ArrowUp \<or> k = ArrowDown then
           (let currentIndex =
                  (case selectedUser s of
                     Some u \<Rightarrow> findIndex (\<lambda>v. user_id v = user_id u) users
                   | None \<Rightarrow> -1);
                newIndex =
                  (if k = ArrowUp
                   then (if currentIndex \<le> 0 then int (length users) - 1 else currentIndex - 1)
                   else (if currentIndex \<ge> int (length users) - 1 then 0 else currentIndex + 1))
            in s\<lparr> selectedUser := js_nth users (Num newIndex) \<rparr>)
         else if k = Enter then
           (case selectedUser s of Some u \<Rightarrow> handleLogin u s | None \<Rightarrow> s)
         else s)
      else s)"

text \<open>
  What can happen to the component: a key goes down, a rendered element is clicked, a
  pending timer fires, or the parent unmounts it. \<open>MemoryTick reached\<close> is the callback
  of the memory interval, with the outcome of its comparison
  \<open>currentMemory >= totalMemory\<close>.
\<close>

datatype xp_event =
    XpKey Key
  | ClickBootOption nat
  | ClickUser nat
  | ClickExit
  | MemoryTick bool
  | AddLines
  | PostDone
  | CountdownTick
  | BootDone
  | LoginDone User
  | Unmount

definition xp_step :: "User list \<Rightarrow> xp_state \<Rightarrow> xp_event \<Rightarrow> xp_state" where
  "xp_step users s e =
     (case e of
        XpKey k \<Rightarrow> if mounted s then handleKeyDown users s k else s
      | ClickBootOption i \<Rightarrow>
          if mounted s \<and> phase s = Bootloader \<and> i < length bootOptions
          then setPhase Boot (s\<lparr> bootloaderIndex := Num (int i) \<rparr>) else s
      | ClickUser i \<Rightarrow>
          if mounted s \<and> (phase s = Login \<or> phase s = LoggingIn) \<and> i < length users
          then handleUserClick (users ! i) s else s
      | ClickExit \<Rightarrow>
          if mounted s \<and> phase s = Desktop then s\<lparr> exitCalls := Suc (exitCalls s) \<rparr> else s
      | MemoryTick reached \<Rightarrow>
          if MemoryInterval \<in> set (timers s) \<and> reached
          then s\<lparr> timers := removeAll MemoryInterval (timers s) \<rparr> else s
      | AddLines \<Rightarrow>
          if AddLinesTimeout \<in> set (timers s)
          then s\<lparr> timers := remove1 AddLinesTimeout (timers s),
                  postLines := postLines s @
                    [ ''Memory Testing : 2097152K OK'',
                      [],
                      ''Detecting Pri Master ... Virtual Hard Disk C:'',
                      ''Detecting Pri Slave  ... Virtual Hard Disk D:'',
                      ''Detecting Sec Master ... Virtual CD/DVD E:'',
                      ''Detecting Sec Slave  ... None'',
                      [],
                      ''Initializing USB Controllers ... Done'',
                      [] ] \<rparr>
          else s
      | PostDone \<Rightarrow>
          if TransitionTimeout \<in> set (timers s)
          then setPhase Bootloader (s\<lparr> timers := remove1 TransitionTimeout (timers s) \<rparr>)
          else s
      | CountdownTick \<Rightarrow>
          if CountdownInterval \<in> set (timers s) then
            (if countdown s \<le> 1
             then setPhase Boot
                    (s\<lparr> timers := removeAll CountdownInterval (timers s), countdown := 0 \<rparr>)
             else s\<lparr> countdown := countdown s - 1 \<rparr>)
          else s
      | BootDone \<Rightarrow>
          if BootTimer \<in> set (timers s)
          then setPhase Login (s\<lparr> timers := remove1 BootTimer (timers s) \<rparr>)
          else s
      | LoginDone user \<Rightarrow>
          if LoginTimeout user \<in> set (timers s) then
            (let s1 = s\<lparr> timers := remove1 (LoginTimeout user) (timers s) \<rparr>;
                 s2 = (if mounted s1 then setPhase Desktop s1 else s1)
             in s2\<lparr> loginCalls := loginCalls s2 @ [user] \<rparr>)
          else s
      | Unmount \<Rightarrow>
          if mounted s
          then s\<lparr> mounted := False,
                  timers := filter (\<lambda>t. t \<notin> set (effectTimers (phase s))) (timers s) \<rparr>
          else s)"

definition xp_run :: "User list \<Rightarrow> xp_event list \<Rightarrow> xp_state" where
  "xp_run users es = foldl (xp_step users) xp_mount es"

text \<open>The position of a phase in the order the type \<open>BootPhase\<close> lists them.\<close>

fun phaseRank :: "BootPhase \<Rightarrow> nat" where
  "phaseRank Post = 0"
| "phaseRank Bootloader = 1"
| "phaseRank Boot = 2"
| "phaseRank Login = 3"
| "phaseRank LoggingIn = 4"
| "phaseRank Desktop = 5"

section \<open>Pending timers and the phase\<close>

text \<open>
  A pending timer fits the phase when it is one of the timers of that phase's effect, or
  a login timeout while the phase is \<open>logging-in\<close> or \<open>desktop\<close>.
\<close>

fun timer_in_phase :: "BootPhase \<Rightarrow> timer \<Rightarrow> bool" where
  "timer_in_phase p (LoginTimeout u) = (p = LoggingIn \<or> p = Desktop)"
| "timer_in_phase p t = (t \<in> set (effectTimers p))"

definition timers_ok :: "xp_state \<Rightarrow> bool" where
  "timers_ok s = list_all (timer_in_phase (phase s)) (timers s)"

section \<open>Example states\<close>

text \<open>
  A configuration with two Clover theme names, the picker once it has loaded it, and
  the initial state of the picker with built-in themes.
\<close>

definition clover_config :: Config where
  "clover_config =
     \<lparr> defaultTheme = ''clover-demo'', cfg_themes = Some [],
       cloverThemes = Some [''demo'', ''other''] \<rparr>"

definition example_state :: app_state where
  "example_state =
     \<lparr> config = Some clover_config,
       themes = [buildCloverTheme ''demo'', buildCloverTheme ''other''],
       themeId = ''clover-demo'', selectedIndex = Num 0,
       status = ''Boot macOS'', activeRow = EntriesRow, actionIndex = Num 0,
       showOptions = False, optionIndex = Num 0, fetchPending = False,
       navTimers = [], location = None \<rparr>"

definition static_init :: static_state where
  "static_init =
     \<lparr> st_themeId = ClassicId, st_selectedIndex = Num 0, st_status = ''Boot HFS'',
       st_activeRow = EntriesRow, st_actionIndex = Num 0 \<rparr>"


text \<open>
  The events that bring the boot simulation, with the default users, to the
  \<open>logging-in\<close> phase: POST ends, Enter in the boot loader, the boot animation ends,
  ArrowDown selects the first user, Enter logs in.
\<close>

definition login_trace :: "xp_event list" where
  "login_trace = [PostDone, XpKey Enter, BootDone, XpKey ArrowDown, XpKey Enter]"

text \<open>
  A configuration whose \<open>defaultTheme\<close> names none of its themes, the state of the
  picker once it is loaded, and the state after a click on its Options action.
\<close>

definition unmatched_config :: Config where
  "unmatched_config =
     \<lparr> defaultTheme = ''missing'', cfg_themes = Some [], cloverThemes = Some [''demo''] \<rparr>"

definition unmatched_loaded :: app_state where
  "unmatched_loaded =
     \<lparr> config = Some unmatched_config, themes = [buildCloverTheme ''demo''],
       themeId = ''missing'', selectedIndex = Num 0,
       status = ''Boot macOS'', activeRow = EntriesRow, actionIndex = Num 0,
       showOptions = False, optionIndex = Num 0, fetchPending = False,
       navTimers = [], location = None \<rparr>"

definition unmatched_modal :: app_state where
  "unmatched_modal =
     unmatched_loaded\<lparr> activeRow := ActionsRow, actionIndex := Num 3, status := ''Options'',
       showOptions := True, optionIndex := Num (- 1) \<rparr>"

text \<open>The events that deliver the outcome of the fetch.\<close>

fun settles_fetch :: "app_event \<Rightarrow> bool" where
  "settles_fetch (Fetched r) = True"
| "settles_fetch _ = False"

text \<open>The state the rejection handler of the fetch leaves behind.\<close>

definition failed_state :: app_state where
  "failed_state = app_init\<lparr> status := ''Failed to load config'', fetchPending := False \<rparr>"

text \<open>A configuration with one built-in theme and one Clover theme name.\<close>

definition example_config :: Config where
  "example_config =
     \<lparr> defaultTheme = ''classic'',
       cfg_themes = Some
         [ \<lparr> theme_id = ''classic'', label = ''Classic'', theme_type = Builtin,
             background = ''assets/bg-tonymac.png'', logo = None,
             entries = Some
               [ \<lparr> entry_id = ''hfs'', entry_name = ''HFS'',
                   entry_icon = ''assets/vol_internal_hfs.png'', badge = None,
                   url = Some ''https://example.org/'' \<rparr> ],
             actions =
               [ \<lparr> action_id = ''options'', action_name = ''Options'',
                   action_icon = ''assets/func_options.png'' \<rparr> ] \<rparr> ],
       cloverThemes = Some [''demo''] \<rparr>"

text \<open>
  Two bodies that are valid JSON but not a configuration: one without \<open>themes\<close>, and
  one whose only theme, the default one, has no \<open>entries\<close>; and the theme the second one
  stores.
\<close>

definition themeless_config :: Config where
  "themeless_config =
     \<lparr> defaultTheme = ''classic'', cfg_themes = None, cloverThemes = None \<rparr>"

definition entryless_theme :: ConfigTheme where
  "entryless_theme =
     \<lparr> theme_id = ''classic'', label = ''Classic'', theme_type = Builtin,
       background = ''assets/bg-tonymac.png'', logo = None, entries = None,
       actions =
         [ \<lparr> action_id = ''options'', action_name = ''Options'',
             action_icon = ''assets/func_options.png'' \<rparr> ] \<rparr>"

definition entryless_config :: Config where
  "entryless_config =
     \<lparr> defaultTheme = ''classic'', cfg_themes = Some [entryless_theme],
       cloverThemes = None \<rparr>"

section \<open>Index arithmetic\<close>

lemma smod_nonneg: "0 \<le> a \<Longrightarrow> 0 < b \<Longrightarrow> (a::int) smod b = a mod b"
  by (simp add: smod_int_alt_def sgn_if)

lemma prevIndex_Num:
  "0 \<le> i \<Longrightarrow> i < int (length xs) \<Longrightarrow>
   prevIndex (Num i) xs = Num ((i - 1 + int (length xs)) mod int (length xs))"
  by (cases xs) (simp_all add: prevIndex_def js_length_def smod_nonneg)

lemma nextIndex_Num:
  "0 \<le> i \<Longrightarrow> i < int (length xs) \<Longrightarrow>
   nextIndex (Num i) xs = Num ((i + 1) mod int (length xs))"
  by (cases xs) (simp_all add: nextIndex_def js_length_def smod_nonneg)

lemma statusEffect_only_status: "statusEffect r s = s\<lparr> status := status (statusEffect r s) \<rparr>"
  by (simp add: statusEffect_def split: option.splits)

lemma runEffects_same_theme:
  "themeId r = themeId p \<Longrightarrow> length (themes r) = length (themes p) \<Longrightarrow>
   runEffects p r = r\<lparr> status := status (runEffects p r) \<rparr>"
  by (simp add: runEffects_def statusEffect_def split: option.splits)

lemma settle_same_theme:
  "themeId r = themeId p \<Longrightarrow> length (themes r) = length (themes p) \<Longrightarrow>
   settle p r = r\<lparr> status := status (settle p r) \<rparr>"
  by (simp add: settle_def runEffects_def statusEffect_def Let_def split: option.splits)

lemma entries_nonempty_theme: "entries_of s \<noteq> [] \<Longrightarrow> theme_of s \<noteq> None"
  by (auto simp: entries_of_def split: option.splits)

lemma actions_nonempty_theme: "actions_of s \<noteq> [] \<Longrightarrow> theme_of s \<noteq> None"
  by (auto simp: actions_of_def split: option.splits)

lemma themes_nonempty_theme: "themes s \<noteq> [] \<Longrightarrow> theme_of s \<noteq> None"
  by (cases "find (\<lambda>item. theme_id item = themeId s) (themes s)") (auto simp: theme_of_def neq_Nil_conv)

lemma app_step_same_theme:
  assumes "themeId (after (dispatch s e)) = themeId s"
    and "length (themes (after (dispatch s e))) = length (themes s)"
  shows "app_step s e = (after (dispatch s e))\<lparr> status := status (app_step s e) \<rparr>"
  unfolding app_step_def using assms by (rule settle_same_theme)

lemma theme_defined:
  fixes i :: int
  assumes "0 \<le> i"
    and "i < int (length (entries_of s)) \<or> i < int (length (actions_of s))
         \<or> i < int (length (themes s))"
  shows "\<exists>t. theme_of s = Some t"
proof -
  from assms have "entries_of s \<noteq> [] \<or> actions_of s \<noteq> [] \<or> themes s \<noteq> []"
    by auto
  then have "theme_of s \<noteq> None"
    using entries_nonempty_theme actions_nonempty_theme themes_nonempty_theme by blast
  then show ?thesis by auto
qed

lemma dispatch_key_closed:
  assumes "theme_of s = Some t" "\<not> showOptions s"
  shows "dispatch s (KeyDown ArrowLeft) =
           (if activeRow s = EntriesRow
            then Done (s\<lparr> selectedIndex := prevIndex (selectedIndex s) (entries_of s) \<rparr>)
            else Done (s\<lparr> actionIndex := prevIndex (actionIndex s) (actions_of s) \<rparr>))"
    and "dispatch s (KeyDown ArrowRight) =
           (if activeRow s = EntriesRow
            then Done (s\<lparr> selectedIndex := nextIndex (selectedIndex s) (entries_of s) \<rparr>)
            else Done (s\<lparr> actionIndex := nextIndex (actionIndex s) (actions_of s) \<rparr>))"
  using assms by (simp_all add: dispatch_def handleKey_def)

lemma dispatch_key_modal:
  assumes "theme_of s = Some t" "showOptions s"
  shows "dispatch s (KeyDown ArrowUp) =
           Done (s\<lparr> optionIndex := prevIndex (optionIndex s) (themes s) \<rparr>)"
    and "dispatch s (KeyDown ArrowDown) =
           Done (s\<lparr> optionIndex := nextIndex (optionIndex s) (themes s) \<rparr>)"
  using assms by (simp_all add: dispatch_def handleKey_def)

lemma entries_row_wrap:
  assumes "\<not> showOptions s" "activeRow s = EntriesRow" "selectedIndex s = Num i"
    and "0 \<le> i" "i < int (length (entries_of s))"
  shows "selectedIndex (app_step s (KeyDown ArrowLeft))
           = Num ((i - 1 + int (length (entries_of s))) mod int (length (entries_of s)))"
    and "selectedIndex (app_step s (KeyDown ArrowRight))
           = Num ((i + 1) mod int (length (entries_of s)))"
proof -
  from assms obtain t where th: "theme_of s = Some t"
    using theme_defined[of i s] by auto
  have "selectedIndex (app_step s (KeyDown ArrowLeft))
          = selectedIndex (after (dispatch s (KeyDown ArrowLeft)))"
    by (subst app_step_same_theme) (simp_all add: dispatch_key_closed[OF th assms(1)])
  then show "selectedIndex (app_step s (KeyDown ArrowLeft))
           = Num ((i - 1 + int (length (entries_of s))) mod int (length (entries_of s)))"
    using assms by (simp add: dispatch_key_closed[OF th assms(1)] prevIndex_Num)
  have "selectedIndex (app_step s (KeyDown ArrowRight))
          = selectedIndex (after (dispatch s (KeyDown ArrowRight)))"
    by (subst app_step_same_theme) (simp_all add: dispatch_key_closed[OF th assms(1)])
  then show "selectedIndex (app_step s (KeyDown ArrowRight))
           = Num ((i + 1) mod int (length (entries_of s)))"
    using assms by (simp add: dispatch_key_closed[OF th assms(1)] nextIndex_Num)
qed

lemma actions_row_wrap:
  assumes "\<not> showOptions s" "activeRow s = ActionsRow" "actionIndex s = Num i"
    and "0 \<le> i" "i < int (length (actions_of s))"
  shows "actionIndex (app_step s (KeyDown ArrowLeft))
           = Num ((i - 1 + int (length (actions_of s))) mod int (length (actions_of s)))"
    and "actionIndex (app_step s (KeyDown ArrowRight))
           = Num ((i + 1) mod int (length (actions_of s)))"
proof -
  from assms obtain t where th: "theme_of s = Some t"
    using theme_defined[of i s] by auto
  have "actionIndex (app_step s (KeyDown ArrowLeft))
          = actionIndex (after (dispatch s (KeyDown ArrowLeft)))"
    by (subst app_step_same_theme) (simp_all add: dispatch_key_closed[OF th assms(1)])
  then show "actionIndex (app_step s (KeyDown ArrowLeft))
           = Num ((i - 1 + int (length (actions_of s))) mod int (length (actions_of s)))"
    using assms by (simp add: dispatch_key_closed[OF th assms(1)] prevIndex_Num)
  have "actionIndex (app_step s (KeyDown ArrowRight))
          = actionIndex (after (dispatch s (KeyDown ArrowRight)))"
    by (subst app_step_same_theme) (simp_all add: dispatch_key_closed[OF th assms(1)])
  then show "actionIndex (app_step s (KeyDown ArrowRight))
           = Num ((i + 1) mod int (length (actions_of s)))"
    using assms by (simp add: dispatch_key_closed[OF th assms(1)] nextIndex_Num)
qed

lemma options_list_wrap:
  assumes "showOptions s" "optionIndex s = Num i"
    and "0 \<le> i" "i < int (length (themes s))"
  shows "optionIndex (app_step s (KeyDown ArrowUp))
           = Num ((i - 1 + int (length (themes s))) mod int (length (themes s)))"
    and "optionIndex (app_step s (KeyDown ArrowDown))
           = Num ((i + 1) mod int (length (themes s)))"
proof -
  from assms obtain t where th: "theme_of s = Some t"
    using theme_defined[of i s] by auto
  have "optionIndex (app_step s (KeyDown ArrowUp))
          = optionIndex (after (dispatch s (KeyDown ArrowUp)))"
    by (subst app_step_same_theme) (simp_all add: dispatch_key_modal[OF th assms(1)])
  then show "optionIndex (app_step s (KeyDown ArrowUp))
           = Num ((i - 1 + int (length (themes s))) mod int (length (themes s)))"
    using assms by (simp add: dispatch_key_modal[OF th assms(1)] prevIndex_Num)
  have "optionIndex (app_step s (KeyDown ArrowDown))
          = optionIndex (after (dispatch s (KeyDown ArrowDown)))"
    by (subst app_step_same_theme) (simp_all add: dispatch_key_modal[OF th assms(1)])
  then show "optionIndex (app_step s (KeyDown ArrowDown))
           = Num ((i + 1) mod int (length (themes s)))"
    using assms by (simp add: dispatch_key_modal[OF th assms(1)] nextIndex_Num)
qed

lemma bootloader_wrap:
  assumes "mounted x" "phase x = Bootloader" "bootloaderIndex x = Num i"
    and "0 \<le> i" "i < int (length bootOptions)"
  shows "bootloaderIndex (xp_step users x (XpKey ArrowUp))
           = Num ((i - 1 + int (length bootOptions)) mod int (length bootOptions))"
    and "bootloaderIndex (xp_step users x (XpKey ArrowDown))
           = Num ((i + 1) mod int (length bootOptions))"
  using assms prevIndex_Num[of i bootOptions] nextIndex_Num[of i bootOptions]
  by (simp_all add: xp_step_def handleKeyDown_def)

lemma move_wrap:
  assumes "0 \<le> i" "i < int (length xs)"
  shows "js_rem (js_add (js_add (Num i) (Num (-1))) (js_length xs)) (js_length xs)
           = Num ((i - 1 + int (length xs)) mod int (length xs))"
    and "js_rem (js_add (js_add (Num i) (Num 1)) (js_length xs)) (js_length xs)
           = Num ((i + 1) mod int (length xs))"
proof -
  from assms have pos: "0 < int (length xs)" by linarith
  have a: "(i + 1 + int (length xs)) mod int (length xs) = (i + 1) mod int (length xs)"
    by simp
  show "js_rem (js_add (js_add (Num i) (Num (-1))) (js_length xs)) (js_length xs)
           = Num ((i - 1 + int (length xs)) mod int (length xs))"
    using assms pos by (simp add: js_length_def smod_nonneg)
  show "js_rem (js_add (js_add (Num i) (Num 1)) (js_length xs)) (js_length xs)
           = Num ((i + 1) mod int (length xs))"
    using assms pos a by (simp add: js_length_def smod_nonneg)
qed

lemma static_entries_wrap:
  assumes "st_activeRow t = EntriesRow" "st_selectedIndex t = Num i"
    and "0 \<le> i" "i < int (length (st_entries (static_theme t)))"
  shows "st_selectedIndex (after (static_handleKey t ArrowLeft))
           = Num ((i - 1 + int (length (st_entries (static_theme t))))
                  mod int (length (st_entries (static_theme t))))"
    and "st_selectedIndex (after (static_handleKey t ArrowRight))
           = Num ((i + 1) mod int (length (st_entries (static_theme t))))"
  using assms move_wrap[of i "st_entries (static_theme t)"]
  by (simp_all add: static_handleKey_def moveEntries_def Let_def)

lemma static_actions_wrap:
  assumes "st_activeRow t = ActionsRow" "st_actionIndex t = Num i"
    and "0 \<le> i" "i < int (length (st_actions (static_theme t)))"
  shows "st_actionIndex (after (static_handleKey t ArrowLeft))
           = Num ((i - 1 + int (length (st_actions (static_theme t))))
                  mod int (length (st_actions (static_theme t))))"
    and "st_actionIndex (after (static_handleKey t ArrowRight))
           = Num ((i + 1) mod int (length (st_actions (static_theme t))))"
  using assms move_wrap[of i "st_actions (static_theme t)"]
  by (simp_all add: static_handleKey_def moveActions_def Let_def)

section \<open>Circular navigation\<close>

lemma example_state_rows:
  "theme_of example_state = Some (buildCloverTheme ''demo'')"
  "length (entries_of example_state) = 2"
  "length (actions_of example_state) = 6"
  "length (themes example_state) = 2"
  by (simp_all add: example_state_def entries_of_def actions_of_def theme_of_def
      buildCloverTheme_def)

lemma static_init_rows:
  "length (st_entries (static_theme static_init)) = 2"
  "length (st_actions (static_theme static_init)) = 6"
  by (simp_all add: static_init_def static_theme_def static_themes_def)

text \<open>
  C1. In a row of length \<open>n > 0\<close> with the selection at an in-bounds index \<open>i\<close>, the
  arrow key towards the previous item sets the index to \<open>(i - 1 + n) mod n\<close> and the one
  towards the next item sets it to \<open>(i + 1) mod n\<close>: Left/Right on the entries and the
  actions row of the picker (both documents of App.tsx), Up/Down on the list of the
  options modal and on the option list of the XP boot loader.
\<close>

theorem arrow_keys_wrap_selection:
  "(\<not> showOptions sa \<and> activeRow sa = EntriesRow \<and> selectedIndex sa = Num ia
      \<and> 0 \<le> ia \<and> ia < int (length (entries_of sa)) \<longrightarrow>
      selectedIndex (app_step sa (KeyDown ArrowLeft))
        = Num ((ia - 1 + int (length (entries_of sa))) mod int (length (entries_of sa)))
      \<and> selectedIndex (app_step sa (KeyDown ArrowRight))
        = Num ((ia + 1) mod int (length (entries_of sa))))
   \<and> (\<not> showOptions sb \<and> activeRow sb = ActionsRow \<and> actionIndex sb = Num ib
      \<and> 0 \<le> ib \<and> ib < int (length (actions_of sb)) \<longrightarrow>
      actionIndex (app_step sb (KeyDown ArrowLeft))
        = Num ((ib - 1 + int (length (actions_of sb))) mod int (length (actions_of sb)))
      \<and> actionIndex (app_step sb (KeyDown ArrowRight))
        = Num ((ib + 1) mod int (length (actions_of sb))))
   \<and> (showOptions sc \<and> optionIndex sc = Num ic
      \<and> 0 \<le> ic \<and> ic < int (length (themes sc)) \<longrightarrow>
      optionIndex (app_step sc (KeyDown ArrowUp))
        = Num ((ic - 1 + int (length (themes sc))) mod int (length (themes sc)))
      \<and> optionIndex (app_step sc (KeyDown ArrowDown))
        = Num ((ic + 1) mod int (length (themes sc))))
   \<and> (mounted x \<and> phase x = Bootloader \<and> bootloaderIndex x = Num ix
      \<and> 0 \<le> ix \<and> ix < int (length bootOptions) \<longrightarrow>
      bootloaderIndex (xp_step users x (XpKey ArrowUp))
        = Num ((ix - 1 + int (length bootOptions)) mod int (length bootOptions))
      \<and> bootloaderIndex (xp_step users x (XpKey ArrowDown))
        = Num ((ix + 1) mod int (length bootOptions)))
   \<and> (st_activeRow ta = EntriesRow \<and> st_selectedIndex ta = Num it
      \<and> 0 \<le> it \<and> it < int (length (st_entries (static_theme ta))) \<longrightarrow>
      st_selectedIndex (after (static_handleKey ta ArrowLeft))
        = Num ((it - 1 + int (length (st_entries (static_theme ta))))
               mod int (length (st_entries (static_theme ta))))
      \<and> st_selectedIndex (after (static_handleKey ta ArrowRight))
        = Num ((it + 1) mod int (length (st_entries (static_theme ta)))))
   \<and> (st_activeRow tb = ActionsRow \<and> st_actionIndex tb = Num iu
      \<and> 0 \<le> iu \<and> iu < int (length (st_actions (static_theme tb))) \<longrightarrow>
      st_actionIndex (after (static_handleKey tb ArrowLeft))
        = Num ((iu - 1 + int (length (st_actions (static_theme tb))))
               mod int (length (st_actions (static_theme tb))))
      \<and> st_actionIndex (after (static_handleKey tb ArrowRight))
        = Num ((iu + 1) mod int (length (st_actions (static_theme tb)))))"
  by (intro conjI impI; elim conjE)
    (simp_all add: entries_row_wrap actions_row_wrap options_list_wrap bootloader_wrap
      static_entries_wrap static_actions_wrap)

theorem arrow_keys_wrap_selection_witness:
  "selectedIndex (app_step example_state (KeyDown ArrowLeft)) = Num 1
   \<and> selectedIndex (app_step example_state (KeyDown ArrowRight)) = Num 1
   \<and> actionIndex (app_step (example_state\<lparr> activeRow := ActionsRow \<rparr>) (KeyDown ArrowLeft)) = Num 5
   \<and> actionIndex (app_step (example_state\<lparr> activeRow := ActionsRow \<rparr>) (KeyDown ArrowRight)) = Num 1
   \<and> optionIndex (app_step (example_state\<lparr> showOptions := True \<rparr>) (KeyDown ArrowUp)) = Num 1
   \<and> optionIndex (app_step (example_state\<lparr> showOptions := True \<rparr>) (KeyDown ArrowDown)) = Num 1
   \<and> bootloaderIndex (xp_step defaultUsers (xp_step defaultUsers xp_mount PostDone) (XpKey ArrowUp)) = Num 2
   \<and> bootloaderIndex (xp_step defaultUsers (xp_step defaultUsers xp_mount PostDone) (XpKey ArrowDown)) = Num 1
   \<and> st_selectedIndex (after (static_handleKey static_init ArrowLeft)) = Num 1
   \<and> st_selectedIndex (after (static_handleKey static_init ArrowRight)) = Num 1
   \<and> st_actionIndex (after (static_handleKey (static_init\<lparr> st_activeRow := ActionsRow \<rparr>) ArrowLeft)) = Num 5
   \<and> st_actionIndex (after (static_handleKey (static_init\<lparr> st_activeRow := ActionsRow \<rparr>) ArrowRight)) = Num 1"
proof -
  have e: "entries_of (example_state\<lparr> activeRow := ActionsRow \<rparr>) = entries_of example_state"
    "actions_of (example_state\<lparr> activeRow := ActionsRow \<rparr>) = actions_of example_state"
    by (simp_all add: entries_of_def actions_of_def theme_of_def)
  have t: "static_theme (static_init\<lparr> st_activeRow := ActionsRow \<rparr>) = static_theme static_init"
    by (simp add: static_theme_def)
  have x: "mounted (xp_step defaultUsers xp_mount PostDone)"
    "phase (xp_step defaultUsers xp_mount PostDone) = Bootloader"
    "bootloaderIndex (xp_step defaultUsers xp_mount PostDone) = Num 0"
    by (simp_all add: xp_step_def xp_mount_def setPhase_def)
  have len: "int (length bootOptions) = 3" by (simp add: bootOptions_def)
  show ?thesis
    using arrow_keys_wrap_selection[where sa = example_state and ia = 0
        and sb = "example_state\<lparr> activeRow := ActionsRow \<rparr>" and ib = 0
        and sc = "example_state\<lparr> showOptions := True \<rparr>" and ic = 0
        and x = "xp_step defaultUsers xp_mount PostDone" and ix = 0 and users = defaultUsers
        and ta = static_init and it = 0
        and tb = "static_init\<lparr> st_activeRow := ActionsRow \<rparr>" and iu = 0]
    by (simp add: e t x len example_state_rows static_init_rows)
      (simp add: example_state_def static_init_def)
qed

lemma dispatch_key_closed_theme:
  assumes "\<not> showOptions s"
  shows "themeId (after (dispatch s (KeyDown k))) = themeId s"
    and "themes (after (dispatch s (KeyDown k))) = themes s"
  using assms
  by (cases k; simp add: dispatch_def handleKey_def bootEntry_def openOptions_def
      split: option.splits list.splits)+

lemma app_step_key_closed:
  assumes "\<not> showOptions s"
  shows "app_step s (KeyDown k)
           = (after (dispatch s (KeyDown k)))\<lparr> status := status (app_step s (KeyDown k)) \<rparr>"
  by (rule app_step_same_theme) (simp_all add: dispatch_key_closed_theme[OF assms])

lemma dispatch_updown_closed:
  assumes "theme_of s = Some t" "\<not> showOptions s"
  shows "\<exists>st. after (dispatch s (KeyDown ArrowDown)) = s\<lparr> activeRow := ActionsRow, status := st \<rparr>"
    and "\<exists>st. after (dispatch s (KeyDown ArrowUp)) = s\<lparr> activeRow := EntriesRow, status := st \<rparr>"
proof -
  show "\<exists>st. after (dispatch s (KeyDown ArrowDown)) = s\<lparr> activeRow := ActionsRow, status := st \<rparr>"
  proof (cases "js_nth (actions_of s) (actionIndex s)")
    case None
    with assms have "after (dispatch s (KeyDown ArrowDown))
        = s\<lparr> activeRow := ActionsRow, status := status s \<rparr>"
      by (simp add: dispatch_def handleKey_def)
    then show ?thesis by blast
  next
    case (Some a)
    with assms have "after (dispatch s (KeyDown ArrowDown))
        = s\<lparr> activeRow := ActionsRow, status := action_name a \<rparr>"
      by (simp add: dispatch_def handleKey_def)
    then show ?thesis by blast
  qed
  show "\<exists>st. after (dispatch s (KeyDown ArrowUp)) = s\<lparr> activeRow := EntriesRow, status := st \<rparr>"
  proof (cases "js_nth (entries_of s) (selectedIndex s)")
    case None
    with assms have "after (dispatch s (KeyDown ArrowUp))
        = s\<lparr> activeRow := EntriesRow, status := status s \<rparr>"
      by (simp add: dispatch_def handleKey_def)
    then show ?thesis by blast
  next
    case (Some a)
    with assms have "after (dispatch s (KeyDown ArrowUp))
        = s\<lparr> activeRow := EntriesRow, status := ''Boot '' @ entry_name a \<rparr>"
      by (simp add: dispatch_def handleKey_def)
    then show ?thesis by blast
  qed
qed

lemma updown_switch_rows:
  assumes "theme_of s = Some t" "\<not> showOptions s"
  shows "activeRow (app_step s (KeyDown ArrowDown)) = ActionsRow"
    and "selectedIndex (app_step s (KeyDown ArrowDown)) = selectedIndex s"
    and "actionIndex (app_step s (KeyDown ArrowDown)) = actionIndex s"
    and "activeRow (app_step s (KeyDown ArrowUp)) = EntriesRow"
    and "selectedIndex (app_step s (KeyDown ArrowUp)) = selectedIndex s"
    and "actionIndex (app_step s (KeyDown ArrowUp)) = actionIndex s"
proof -
  from dispatch_updown_closed[OF assms] obtain d u where
    d: "after (dispatch s (KeyDown ArrowDown)) = s\<lparr> activeRow := ActionsRow, status := d \<rparr>" and
    u: "after (dispatch s (KeyDown ArrowUp)) = s\<lparr> activeRow := EntriesRow, status := u \<rparr>"
    by blast
  have sd: "app_step s (KeyDown ArrowDown)
      = s\<lparr> activeRow := ActionsRow, status := status (app_step s (KeyDown ArrowDown)) \<rparr>"
    using app_step_key_closed[OF assms(2), of ArrowDown] by (simp add: d)
  have su: "app_step s (KeyDown ArrowUp)
      = s\<lparr> activeRow := EntriesRow, status := status (app_step s (KeyDown ArrowUp)) \<rparr>"
    using app_step_key_closed[OF assms(2), of ArrowUp] by (simp add: u)
  show "activeRow (app_step s (KeyDown ArrowDown)) = ActionsRow"
    by (subst sd) simp
  show "selectedIndex (app_step s (KeyDown ArrowDown)) = selectedIndex s"
    by (subst sd) simp
  show "actionIndex (app_step s (KeyDown ArrowDown)) = actionIndex s"
    by (subst sd) simp
  show "activeRow (app_step s (KeyDown ArrowUp)) = EntriesRow"
    by (subst su) simp
  show "selectedIndex (app_step s (KeyDown ArrowUp)) = selectedIndex s"
    by (subst su) simp
  show "actionIndex (app_step s (KeyDown ArrowUp)) = actionIndex s"
    by (subst su) simp
qed

lemma leftright_keep_row:
  assumes "theme_of s = Some t" "\<not> showOptions s"
  shows "activeRow (app_step s (KeyDown ArrowLeft)) = activeRow s"
    and "activeRow (app_step s (KeyDown ArrowRight)) = activeRow s"
    and "activeRow s = EntriesRow \<Longrightarrow> actionIndex (app_step s (KeyDown ArrowLeft)) = actionIndex s"
    and "activeRow s = EntriesRow \<Longrightarrow> actionIndex (app_step s (KeyDown ArrowRight)) = actionIndex s"
    and "activeRow s = ActionsRow \<Longrightarrow> selectedIndex (app_step s (KeyDown ArrowLeft)) = selectedIndex s"
    and "activeRow s = ActionsRow \<Longrightarrow> selectedIndex (app_step s (KeyDown ArrowRight)) = selectedIndex s"
proof -
  note l = app_step_key_closed[OF assms(2), of ArrowLeft]
  note r = app_step_key_closed[OF assms(2), of ArrowRight]
  note d = dispatch_key_closed[OF assms]
  show "activeRow (app_step s (KeyDown ArrowLeft)) = activeRow s"
    by (subst l) (simp add: d)
  show "activeRow (app_step s (KeyDown ArrowRight)) = activeRow s"
    by (subst r) (simp add: d)
  show "activeRow s = EntriesRow \<Longrightarrow> actionIndex (app_step s (KeyDown ArrowLeft)) = actionIndex s"
    by (subst l) (simp add: d)
  show "activeRow s = EntriesRow \<Longrightarrow> actionIndex (app_step s (KeyDown ArrowRight)) = actionIndex s"
    by (subst r) (simp add: d)
  show "activeRow s = ActionsRow \<Longrightarrow> selectedIndex (app_step s (KeyDown ArrowLeft)) = selectedIndex s"
    by (subst l) (simp add: d)
  show "activeRow s = ActionsRow \<Longrightarrow> selectedIndex (app_step s (KeyDown ArrowRight)) = selectedIndex s"
    by (subst r) (simp add: d)
qed

lemma static_rows:
  shows "st_activeRow (after (static_handleKey u ArrowLeft)) = st_activeRow u"
    and "st_activeRow (after (static_handleKey u ArrowRight)) = st_activeRow u"
    and "st_activeRow (after (static_handleKey u ArrowDown)) = ActionsRow"
    and "st_selectedIndex (after (static_handleKey u ArrowDown)) = st_selectedIndex u"
    and "st_actionIndex (after (static_handleKey u ArrowDown)) = st_actionIndex u"
    and "st_activeRow (after (static_handleKey u ArrowUp)) = EntriesRow"
    and "st_selectedIndex (after (static_handleKey u ArrowUp)) = st_selectedIndex u"
    and "st_actionIndex (after (static_handleKey u ArrowUp)) = st_actionIndex u"
  by (simp_all add: static_handleKey_def moveEntries_def moveActions_def Let_def
      split: option.splits)

lemma static_other_index:
  shows "st_activeRow u = EntriesRow \<Longrightarrow>
           st_actionIndex (after (static_handleKey u ArrowLeft)) = st_actionIndex u"
    and "st_activeRow u = EntriesRow \<Longrightarrow>
           st_actionIndex (after (static_handleKey u ArrowRight)) = st_actionIndex u"
    and "st_activeRow u = ActionsRow \<Longrightarrow>
           st_selectedIndex (after (static_handleKey u ArrowLeft)) = st_selectedIndex u"
    and "st_activeRow u = ActionsRow \<Longrightarrow>
           st_selectedIndex (after (static_handleKey u ArrowRight)) = st_selectedIndex u"
  by (simp_all add: static_handleKey_def moveEntries_def moveActions_def Let_def)

section \<open>Arrow keys and the active row\<close>

text \<open>
  C2, as stated, fails: with the entries row active, ArrowDown makes the actions row
  the active one and moves no selection, in both documents of App.tsx.
\<close>

theorem arrow_down_leaves_row_counterexample:
  "activeRow example_state = EntriesRow
   \<and> activeRow (app_step example_state (KeyDown ArrowDown)) \<noteq> activeRow example_state
   \<and> selectedIndex (app_step example_state (KeyDown ArrowDown)) = selectedIndex example_state
   \<and> st_activeRow static_init = EntriesRow
   \<and> st_activeRow (after (static_handleKey static_init ArrowDown)) \<noteq> st_activeRow static_init"
proof -
  have m: "\<not> showOptions example_state" by (simp add: example_state_def)
  have "activeRow (app_step example_state (KeyDown ArrowDown)) = ActionsRow"
    and "selectedIndex (app_step example_state (KeyDown ArrowDown)) = selectedIndex example_state"
    using updown_switch_rows[OF example_state_rows(1) m] by simp_all
  moreover have "activeRow example_state = EntriesRow" by (simp add: example_state_def)
  moreover have "st_activeRow static_init = EntriesRow" by (simp add: static_init_def)
  moreover have "st_activeRow (after (static_handleKey static_init ArrowDown)) = ActionsRow"
    by (rule static_rows)
  ultimately show ?thesis by simp
qed

text \<open>
  C2, amended. In both documents of App.tsx (in the first while the options modal is
  closed), ArrowLeft and ArrowRight leave the active row as it is, do not touch the
  index of the other row and move the selection of the active row with wraparound (for
  an in-bounds index); ArrowDown makes the actions row active and ArrowUp the entries
  row, and neither changes a selection index.
\<close>

theorem arrow_keys_rows:
  "(theme_of s = Some t \<and> \<not> showOptions s \<longrightarrow>
      activeRow (app_step s (KeyDown ArrowLeft)) = activeRow s
      \<and> activeRow (app_step s (KeyDown ArrowRight)) = activeRow s
      \<and> (activeRow s = EntriesRow \<longrightarrow>
           actionIndex (app_step s (KeyDown ArrowLeft)) = actionIndex s
           \<and> actionIndex (app_step s (KeyDown ArrowRight)) = actionIndex s
           \<and> (selectedIndex s = Num i \<and> 0 \<le> i \<and> i < int (length (entries_of s)) \<longrightarrow>
                selectedIndex (app_step s (KeyDown ArrowLeft))
                  = Num ((i - 1 + int (length (entries_of s))) mod int (length (entries_of s)))
                \<and> selectedIndex (app_step s (KeyDown ArrowRight))
                  = Num ((i + 1) mod int (length (entries_of s)))))
      \<and> (activeRow s = ActionsRow \<longrightarrow>
           selectedIndex (app_step s (KeyDown ArrowLeft)) = selectedIndex s
           \<and> selectedIndex (app_step s (KeyDown ArrowRight)) = selectedIndex s
           \<and> (actionIndex s = Num i \<and> 0 \<le> i \<and> i < int (length (actions_of s)) \<longrightarrow>
                actionIndex (app_step s (KeyDown ArrowLeft))
                  = Num ((i - 1 + int (length (actions_of s))) mod int (length (actions_of s)))
                \<and> actionIndex (app_step s (KeyDown ArrowRight))
                  = Num ((i + 1) mod int (length (actions_of s)))))
      \<and> activeRow (app_step s (KeyDown ArrowDown)) = ActionsRow
      \<and> selectedIndex (app_step s (KeyDown ArrowDown)) = selectedIndex s
      \<and> actionIndex (app_step s (KeyDown ArrowDown)) = actionIndex s
      \<and> activeRow (app_step s (KeyDown ArrowUp)) = EntriesRow
      \<and> selectedIndex (app_step s (KeyDown ArrowUp)) = selectedIndex s
      \<and> actionIndex (app_step s (KeyDown ArrowUp)) = actionIndex s)
   \<and> st_activeRow (after (static_handleKey u ArrowLeft)) = st_activeRow u
   \<and> st_activeRow (after (static_handleKey u ArrowRight)) = st_activeRow u
   \<and> st_activeRow (after (static_handleKey u ArrowDown)) = ActionsRow
   \<and> st_selectedIndex (after (static_handleKey u ArrowDown)) = st_selectedIndex u
   \<and> st_actionIndex (after (static_handleKey u ArrowDown)) = st_actionIndex u
   \<and> st_activeRow (after (static_handleKey u ArrowUp)) = EntriesRow
   \<and> st_selectedIndex (after (static_handleKey u ArrowUp)) = st_selectedIndex u
   \<and> st_actionIndex (after (static_handleKey u ArrowUp)) = st_actionIndex u
   \<and> (st_activeRow u = EntriesRow \<longrightarrow>
        st_actionIndex (after (static_handleKey u ArrowLeft)) = st_actionIndex u
        \<and> st_actionIndex (after (static_handleKey u ArrowRight)) = st_actionIndex u
        \<and> (st_selectedIndex u = Num j \<and> 0 \<le> j
             \<and> j < int (length (st_entries (static_theme u))) \<longrightarrow>
             st_selectedIndex (after (static_handleKey u ArrowLeft))
               = Num ((j - 1 + int (length (st_entries (static_theme u))))
                      mod int (length (st_entries (static_theme u))))
             \<and> st_selectedIndex (after (static_handleKey u ArrowRight))
               = Num ((j + 1) mod int (length (st_entries (static_theme u))))))
   \<and> (st_activeRow u = ActionsRow \<longrightarrow>
        st_selectedIndex (after (static_handleKey u ArrowLeft)) = st_selectedIndex u
        \<and> st_selectedIndex (after (static_handleKey u ArrowRight)) = st_selectedIndex u
        \<and> (st_actionIndex u = Num j \<and> 0 \<le> j
             \<and> j < int (length (st_actions (static_theme u))) \<longrightarrow>
             st_actionIndex (after (static_handleKey u ArrowLeft))
               = Num ((j - 1 + int (length (st_actions (static_theme u))))
                      mod int (length (st_actions (static_theme u))))
             \<and> st_actionIndex (after (static_handleKey u ArrowRight))
               = Num ((j + 1) mod int (length (st_actions (static_theme u))))))"
  by (intro conjI impI; (elim conjE)?)
    (simp_all add: leftright_keep_row updown_switch_rows static_rows static_other_index
      entries_row_wrap actions_row_wrap static_entries_wrap static_actions_wrap)

theorem arrow_keys_rows_witness:
  "theme_of example_state = Some (buildCloverTheme ''demo'')
   \<and> \<not> showOptions example_state
   \<and> activeRow example_state = EntriesRow
   \<and> activeRow (app_step example_state (KeyDown ArrowLeft)) = EntriesRow
   \<and> selectedIndex (app_step example_state (KeyDown ArrowLeft)) = Num 1
   \<and> actionIndex (app_step example_state (KeyDown ArrowLeft)) = Num 0
   \<and> activeRow (app_step example_state (KeyDown ArrowDown)) = ActionsRow
   \<and> selectedIndex (app_step example_state (KeyDown ArrowDown)) = Num 0
   \<and> activeRow (app_step example_state (KeyDown ArrowUp)) = EntriesRow
   \<and> st_activeRow (after (static_handleKey static_init ArrowDown)) = ActionsRow
   \<and> st_activeRow static_init = EntriesRow
   \<and> st_selectedIndex (after (static_handleKey static_init ArrowLeft)) = Num 1
   \<and> st_selectedIndex (after (static_handleKey static_init ArrowRight)) = Num 1
   \<and> st_actionIndex (after (static_handleKey static_init ArrowLeft)) = Num 0
   \<and> actionIndex (app_step (example_state\<lparr> activeRow := ActionsRow \<rparr>) (KeyDown ArrowLeft))
       = Num 5
   \<and> selectedIndex (app_step (example_state\<lparr> activeRow := ActionsRow \<rparr>) (KeyDown ArrowLeft))
       = Num 0
   \<and> st_actionIndex
        (after (static_handleKey (static_init\<lparr> st_activeRow := ActionsRow \<rparr>) ArrowRight))
       = Num 1
   \<and> st_selectedIndex
        (after (static_handleKey (static_init\<lparr> st_activeRow := ActionsRow \<rparr>) ArrowRight))
       = Num 0"
proof -
  let ?a = "example_state\<lparr> activeRow := ActionsRow \<rparr>"
  let ?b = "static_init\<lparr> st_activeRow := ActionsRow \<rparr>"
  have a: "theme_of ?a = Some (buildCloverTheme ''demo'')" "length (actions_of ?a) = 6"
    "\<not> showOptions ?a" "activeRow ?a = ActionsRow" "actionIndex ?a = Num 0"
    "selectedIndex ?a = Num 0"
    using example_state_rows
    by (simp_all add: theme_of_def actions_of_def) (simp_all add: example_state_def)
  have b: "static_theme ?b = static_theme static_init" "st_activeRow ?b = ActionsRow"
    "st_actionIndex ?b = Num 0" "st_selectedIndex ?b = Num 0"
    by (simp_all add: static_theme_def static_init_def)
  have i: "st_activeRow static_init = EntriesRow" "st_selectedIndex static_init = Num 0"
    "st_actionIndex static_init = Num 0"
    by (simp_all add: static_init_def)
  have e: "\<not> showOptions example_state" "activeRow example_state = EntriesRow"
    "selectedIndex example_state = Num 0" "actionIndex example_state = Num 0"
    by (simp_all add: example_state_def)
  have first: "theme_of example_state = Some (buildCloverTheme ''demo'')
   \<and> \<not> showOptions example_state
   \<and> activeRow example_state = EntriesRow
   \<and> activeRow (app_step example_state (KeyDown ArrowLeft)) = EntriesRow
   \<and> selectedIndex (app_step example_state (KeyDown ArrowLeft)) = Num 1
   \<and> actionIndex (app_step example_state (KeyDown ArrowLeft)) = Num 0
   \<and> activeRow (app_step example_state (KeyDown ArrowDown)) = ActionsRow
   \<and> selectedIndex (app_step example_state (KeyDown ArrowDown)) = Num 0
   \<and> activeRow (app_step example_state (KeyDown ArrowUp)) = EntriesRow
   \<and> st_activeRow (after (static_handleKey static_init ArrowDown)) = ActionsRow
   \<and> st_activeRow static_init = EntriesRow
   \<and> st_selectedIndex (after (static_handleKey static_init ArrowLeft)) = Num 1
   \<and> st_selectedIndex (after (static_handleKey static_init ArrowRight)) = Num 1
   \<and> st_actionIndex (after (static_handleKey static_init ArrowLeft)) = Num 0"
    using arrow_keys_rows[of example_state "buildCloverTheme ''demo''" 0 static_init 0]
    by (simp add: example_state_rows e i static_init_rows)
  have second: "actionIndex (app_step ?a (KeyDown ArrowLeft)) = Num 5
   \<and> selectedIndex (app_step ?a (KeyDown ArrowLeft)) = Num 0
   \<and> st_actionIndex (after (static_handleKey ?b ArrowRight)) = Num 1
   \<and> st_selectedIndex (after (static_handleKey ?b ArrowRight)) = Num 0"
    using arrow_keys_rows[of ?a "buildCloverTheme ''demo''" 0 ?b 0]
    by (simp add: a b static_init_rows)
  from first second show ?thesis by blast
qed

section \<open>Phases and timers of the boot simulation\<close>

lemma timers_ok_mount: "timers_ok xp_mount"
  by (simp add: timers_ok_def xp_mount_def)

lemma timers_ok_subset:
  assumes "timers_ok s" "set (timers s') \<subseteq> set (timers s)" "phase s' = phase s"
  shows "timers_ok s'"
  using assms by (auto simp: timers_ok_def list_all_iff)

lemma phase_setPhase [simp]: "phase (setPhase p s) = p"
  by (simp add: setPhase_def)

lemma timers_ok_setPhase:
  assumes "timers_ok s" "phase s = LoggingIn \<or> phase s = Desktop \<Longrightarrow> p = LoggingIn \<or> p = Desktop"
  shows "timers_ok (setPhase p s)"
proof (cases "p = phase s")
  case True
  with assms show ?thesis by (simp add: setPhase_def)
next
  case False
  have "timer_in_phase p t" if "t \<in> set (timers s)" "t \<notin> set (effectTimers (phase s))" for t
  proof (cases t)
    case (LoginTimeout u)
    with that assms show ?thesis by (auto simp: timers_ok_def list_all_iff)
  qed (use that assms in \<open>auto simp: timers_ok_def list_all_iff\<close>)
  moreover have "timer_in_phase p t" if "t \<in> set (effectTimers p)" for t
    using that by (cases p; cases t) auto
  ultimately show ?thesis
    using False by (auto simp: timers_ok_def setPhase_def list_all_iff)
qed

lemma timers_ok_pending:
  assumes "timers_ok s" "t \<in> set (timers s)"
  shows "timer_in_phase (phase s) t"
  using assms by (auto simp: timers_ok_def list_all_iff)

lemma handleLogin_ok:
  assumes "timers_ok s" "phase s = Login \<or> phase s = LoggingIn"
  shows "timers_ok (handleLogin u s)" and "phase (handleLogin u s) = LoggingIn"
proof -
  have "timers_ok (s\<lparr> loggingInUser := Some u \<rparr>)"
    using assms(1) by (rule timers_ok_subset) simp_all
  then have "timers_ok (setPhase LoggingIn (s\<lparr> loggingInUser := Some u \<rparr>))"
    by (rule timers_ok_setPhase) simp
  then show "timers_ok (handleLogin u s)"
    by (simp add: handleLogin_def Let_def timers_ok_def)
  show "phase (handleLogin u s) = LoggingIn"
    by (simp add: handleLogin_def Let_def)
qed

lemma key_step_ok:
  assumes "timers_ok s"
  shows "timers_ok (handleKeyDown users s k)
         \<and> phaseRank (phase s) \<le> phaseRank (phase (handleKeyDown users s k))"
proof (cases "k = Escape")
  case True
  then show ?thesis using assms by (simp add: handleKeyDown_def timers_ok_def)
next
  case ne: False
  consider (b) "phase s = Bootloader" | (l) "phase s = Login"
    | (o) "phase s \<noteq> Bootloader" "phase s \<noteq> Login" by blast
  then show ?thesis
  proof cases
    case b
    have "timers_ok (setPhase Boot s)"
      using assms by (rule timers_ok_setPhase) (simp add: b)
    then show ?thesis
      using assms ne b by (cases k) (simp_all add: handleKeyDown_def timers_ok_def)
  next
    case l
    show ?thesis
    proof (cases "selectedUser s")
      case None
      then show ?thesis
        using assms ne l by (cases k) (simp_all add: handleKeyDown_def timers_ok_def Let_def)
    next
      case (Some u)
      then show ?thesis
        using assms ne l handleLogin_ok[OF assms, of u]
        by (cases k) (simp_all add: handleKeyDown_def timers_ok_def Let_def)
    qed
  next
    case o
    then show ?thesis using assms ne by (simp add: handleKeyDown_def)
  qed
qed

lemma xp_step_ok:
  assumes "timers_ok s"
  shows "timers_ok (xp_step users s e)
         \<and> phaseRank (phase s) \<le> phaseRank (phase (xp_step users s e))"
proof (cases e)
  case (XpKey k)
  then show ?thesis using key_step_ok[OF assms] assms by (simp add: xp_step_def)
next
  case (ClickBootOption i)
  show ?thesis
  proof (cases "mounted s \<and> phase s = Bootloader \<and> i < length bootOptions")
    case True
    have "timers_ok (s\<lparr> bootloaderIndex := Num (int i) \<rparr>)"
      using assms by (rule timers_ok_subset) simp_all
    then have "timers_ok (setPhase Boot (s\<lparr> bootloaderIndex := Num (int i) \<rparr>))"
      by (rule timers_ok_setPhase) (simp add: True)
    then show ?thesis using True ClickBootOption by (simp add: xp_step_def)
  next
    case False
    then show ?thesis using assms ClickBootOption by (auto simp: xp_step_def)
  qed
next
  case (ClickUser i)
  show ?thesis
  proof (cases "mounted s \<and> (phase s = Login \<or> phase s = LoggingIn) \<and> i < length users")
    case True
    then have ph: "phase s = Login \<or> phase s = LoggingIn" by simp
    have sel: "timers_ok (s\<lparr> selectedUser := Some (users ! i) \<rparr>)"
      using assms by (rule timers_ok_subset) simp_all
    have "timers_ok (handleUserClick (users ! i) s)
          \<and> phaseRank (phase s) \<le> phaseRank (phase (handleUserClick (users ! i) s))"
      using handleLogin_ok[OF assms ph, of "users ! i"] sel ph
      by (auto simp: handleUserClick_def split: option.splits)
    then show ?thesis using True ClickUser by (simp add: xp_step_def)
  next
    case False
    then show ?thesis using assms ClickUser by (auto simp: xp_step_def)
  qed
next
  case ClickExit
  then show ?thesis using assms by (auto simp: xp_step_def timers_ok_def)
next
  case (MemoryTick r)
  have "timers_ok (s\<lparr> timers := removeAll MemoryInterval (timers s) \<rparr>)"
    using assms by (rule timers_ok_subset) auto
  then show ?thesis using assms MemoryTick by (simp add: xp_step_def)
next
  case AddLines
  then show ?thesis
    using assms by (auto simp: xp_step_def timers_ok_def list_all_iff dest: notin_set_remove1)
next
  case PostDone
  show ?thesis
  proof (cases "TransitionTimeout \<in> set (timers s)")
    case True
    then have ph: "phase s = Post"
      using timers_ok_pending[OF assms True] by (cases "phase s") simp_all
    have "timers_ok (s\<lparr> timers := remove1 TransitionTimeout (timers s) \<rparr>)"
      using assms by (rule timers_ok_subset) (simp_all add: set_remove1_subset)
    then have "timers_ok (setPhase Bootloader (s\<lparr> timers := remove1 TransitionTimeout (timers s) \<rparr>))"
      by (rule timers_ok_setPhase) (simp add: ph)
    then show ?thesis using True PostDone ph by (simp add: xp_step_def)
  next
    case False
    then show ?thesis using assms PostDone by (simp add: xp_step_def)
  qed
next
  case CountdownTick
  show ?thesis
  proof (cases "CountdownInterval \<in> set (timers s)")
    case True
    then have ph: "phase s = Bootloader"
      using timers_ok_pending[OF assms True] by (cases "phase s") simp_all
    have "timers_ok (s\<lparr> timers := removeAll CountdownInterval (timers s), countdown := 0 \<rparr>)"
      using assms by (rule timers_ok_subset) auto
    then have "timers_ok (setPhase Boot
        (s\<lparr> timers := removeAll CountdownInterval (timers s), countdown := 0 \<rparr>))"
      by (rule timers_ok_setPhase) (simp add: ph)
    moreover have "timers_ok (s\<lparr> countdown := countdown s - 1 \<rparr>)"
      using assms by (rule timers_ok_subset) simp_all
    ultimately show ?thesis using True CountdownTick ph by (simp add: xp_step_def)
  next
    case False
    then show ?thesis using assms CountdownTick by (simp add: xp_step_def)
  qed
next
  case BootDone
  show ?thesis
  proof (cases "BootTimer \<in> set (timers s)")
    case True
    then have ph: "phase s = Boot"
      using timers_ok_pending[OF assms True] by (cases "phase s") simp_all
    have "timers_ok (s\<lparr> timers := remove1 BootTimer (timers s) \<rparr>)"
      using assms by (rule timers_ok_subset) (simp_all add: set_remove1_subset)
    then have "timers_ok (setPhase Login (s\<lparr> timers := remove1 BootTimer (timers s) \<rparr>))"
      by (rule timers_ok_setPhase) (simp add: ph)
    then show ?thesis using True BootDone ph by (simp add: xp_step_def)
  next
    case False
    then show ?thesis using assms BootDone by (simp add: xp_step_def)
  qed
next
  case (LoginDone u)
  show ?thesis
  proof (cases "LoginTimeout u \<in> set (timers s)")
    case True
    then have ph: "phase s = LoggingIn \<or> phase s = Desktop"
      using timers_ok_pending[OF assms True] by simp
    have r: "timers_ok (s\<lparr> timers := remove1 (LoginTimeout u) (timers s) \<rparr>)"
      using assms by (rule timers_ok_subset) (simp_all add: set_remove1_subset)
    then have "timers_ok (setPhase Desktop (s\<lparr> timers := remove1 (LoginTimeout u) (timers s) \<rparr>))"
      by (rule timers_ok_setPhase) simp
    then show ?thesis
      using True LoginDone ph r by (auto simp: xp_step_def Let_def timers_ok_def)
  next
    case False
    then show ?thesis using assms LoginDone by (simp add: xp_step_def)
  qed
next
  case Unmount
  have "timers_ok (s\<lparr> mounted := False,
      timers := filter (\<lambda>t. t \<notin> set (effectTimers (phase s))) (timers s) \<rparr>)"
    using assms by (rule timers_ok_subset) auto
  then show ?thesis using assms Unmount by (simp add: xp_step_def)
qed

lemma xp_run_snoc: "xp_run users (es @ [e]) = xp_step users (xp_run users es) e"
  by (simp add: xp_run_def)

lemma timers_ok_run: "timers_ok (xp_run users es)"
proof (induction es rule: rev_induct)
  case Nil
  show ?case by (simp add: xp_run_def timers_ok_mount)
next
  case (snoc e es)
  then show ?case using xp_step_ok[of "xp_run users es" users e] by (simp add: xp_run_snoc)
qed

lemma phaseRank_inj: "phaseRank p = phaseRank q \<Longrightarrow> p = q"
  by (cases p; cases q) simp_all

lemma login_trace_states:
  "xp_run defaultUsers [PostDone] =
     xp_mount\<lparr> phase := Bootloader, timers := [CountdownInterval] \<rparr>"
  "xp_run defaultUsers [PostDone, XpKey Enter] =
     xp_mount\<lparr> phase := Boot, timers := [BootTimer] \<rparr>"
  "xp_run defaultUsers [PostDone, XpKey Enter, BootDone] =
     xp_mount\<lparr> phase := Login, timers := [] \<rparr>"
  "xp_run defaultUsers [PostDone, XpKey Enter, BootDone, XpKey ArrowDown] =
     xp_mount\<lparr> phase := Login, timers := [], selectedUser := Some (defaultUsers ! 0) \<rparr>"
  "xp_run defaultUsers login_trace =
     xp_mount\<lparr> phase := LoggingIn, timers := [LoginTimeout (defaultUsers ! 0)],
       selectedUser := Some (defaultUsers ! 0), loggingInUser := Some (defaultUsers ! 0) \<rparr>"
  by (simp_all add: login_trace_def xp_run_def xp_step_def xp_mount_def setPhase_def
      handleKeyDown_def handleLogin_def defaultUsers_def Let_def)

text \<open>
  C3, as stated, fails: Enter on the login screen with a user selected moves the phase
  to \<open>logging-in\<close>, which is not an element of the sequence post, bootloader, boot,
  login, desktop.
\<close>

theorem phase_outside_spec_order_counterexample:
  "phase (xp_run defaultUsers [PostDone, XpKey Enter, BootDone, XpKey ArrowDown]) = Login
   \<and> phase (xp_step defaultUsers
        (xp_run defaultUsers [PostDone, XpKey Enter, BootDone, XpKey ArrowDown]) (XpKey Enter))
       = LoggingIn
   \<and> LoggingIn \<notin> set [Post, Bootloader, Boot, Login, Desktop]"
  by (simp add: login_trace_states)
    (simp add: xp_step_def xp_mount_def handleKeyDown_def handleLogin_def setPhase_def Let_def)

text \<open>
  C3, amended. In every run of the boot simulation the phase only moves forward through
  post, bootloader, boot, login, logging-in, desktop: no step lowers the rank of the
  phase, a step that changes the phase raises it, and the POST timeout, the countdown
  expiry, Enter in the boot loader, the boot timer, Enter on the login screen and the
  login timeout each move the phase to the next one they name.
\<close>

theorem phase_only_advances:
  "phaseRank (phase (xp_run users es)) \<le> phaseRank (phase (xp_step users (xp_run users es) e))
   \<and> (phase (xp_step users (xp_run users es) e) \<noteq> phase (xp_run users es) \<longrightarrow>
        phaseRank (phase (xp_run users es))
          < phaseRank (phase (xp_step users (xp_run users es) e)))
   \<and> (TransitionTimeout \<in> set (timers (xp_run users es)) \<longrightarrow>
        phase (xp_run users es) = Post
        \<and> phase (xp_step users (xp_run users es) PostDone) = Bootloader)
   \<and> (CountdownInterval \<in> set (timers (xp_run users es)) \<and> countdown (xp_run users es) \<le> 1 \<longrightarrow>
        phase (xp_run users es) = Bootloader
        \<and> phase (xp_step users (xp_run users es) CountdownTick) = Boot)
   \<and> (mounted (xp_run users es) \<and> phase (xp_run users es) = Bootloader \<longrightarrow>
        phase (xp_step users (xp_run users es) (XpKey Enter)) = Boot)
   \<and> (BootTimer \<in> set (timers (xp_run users es)) \<longrightarrow>
        phase (xp_run users es) = Boot
        \<and> phase (xp_step users (xp_run users es) BootDone) = Login)
   \<and> (mounted (xp_run users es) \<and> phase (xp_run users es) = Login
        \<and> selectedUser (xp_run users es) = Some u \<longrightarrow>
        phase (xp_step users (xp_run users es) (XpKey Enter)) = LoggingIn)
   \<and> (mounted (xp_run users es) \<and> LoginTimeout u \<in> set (timers (xp_run users es)) \<longrightarrow>
        (phase (xp_run users es) = LoggingIn \<or> phase (xp_run users es) = Desktop)
        \<and> phase (xp_step users (xp_run users es) (LoginDone u)) = Desktop)"
proof -
  let ?s = "xp_run users es"
  have ok: "timers_ok ?s" by (rule timers_ok_run)
  have le: "phaseRank (phase ?s) \<le> phaseRank (phase (xp_step users ?s e))"
    using xp_step_ok[OF ok] by simp
  have lt: "phaseRank (phase ?s) < phaseRank (phase (xp_step users ?s e))"
    if "phase (xp_step users ?s e) \<noteq> phase ?s"
    using le that phaseRank_inj[of "phase ?s" "phase (xp_step users ?s e)"] by fastforce
  have post: "phase ?s = Post \<and> phase (xp_step users ?s PostDone) = Bootloader"
    if "TransitionTimeout \<in> set (timers ?s)"
    using timers_ok_pending[OF ok that] that by (cases "phase ?s") (simp_all add: xp_step_def)
  have cnt: "phase ?s = Bootloader \<and> phase (xp_step users ?s CountdownTick) = Boot"
    if "CountdownInterval \<in> set (timers ?s)" "countdown ?s \<le> 1"
    using timers_ok_pending[OF ok that(1)] that by (cases "phase ?s") (simp_all add: xp_step_def)
  have ent: "phase (xp_step users ?s (XpKey Enter)) = Boot"
    if "mounted ?s" "phase ?s = Bootloader"
    using that by (simp add: xp_step_def handleKeyDown_def)
  have boot: "phase ?s = Boot \<and> phase (xp_step users ?s BootDone) = Login"
    if "BootTimer \<in> set (timers ?s)"
    using timers_ok_pending[OF ok that] that by (cases "phase ?s") (simp_all add: xp_step_def)
  have login: "phase (xp_step users ?s (XpKey Enter)) = LoggingIn"
    if "mounted ?s" "phase ?s = Login" "selectedUser ?s = Some u"
    using that by (simp add: xp_step_def handleKeyDown_def handleLogin_def Let_def)
  have desk: "(phase ?s = LoggingIn \<or> phase ?s = Desktop)
      \<and> phase (xp_step users ?s (LoginDone u)) = Desktop"
    if "mounted ?s" "LoginTimeout u \<in> set (timers ?s)"
    using timers_ok_pending[OF ok that(2)] that by (simp add: xp_step_def Let_def)
  show ?thesis
    using le lt post cnt ent boot login desk by blast
qed

theorem phase_only_advances_witness:
  "phase (xp_run defaultUsers [PostDone]) = Bootloader
   \<and> mounted (xp_run defaultUsers [PostDone])
   \<and> phase (xp_step defaultUsers (xp_run defaultUsers [PostDone]) (XpKey Enter)) = Boot
   \<and> phaseRank (phase (xp_run defaultUsers [PostDone]))
       < phaseRank (phase (xp_step defaultUsers (xp_run defaultUsers [PostDone]) (XpKey Enter)))"
  using phase_only_advances[of defaultUsers "[PostDone]" "XpKey Enter"]
  by (simp add: login_trace_states) (simp add: xp_mount_def)

text \<open>
  C4 on the code: the timeout that \<open>handleLogin\<close> schedules is cleared by no cleanup.
  After Enter on the login screen it is still pending once the component is unmounted,
  and when it fires then it calls \<open>onLogin\<close>; a second click on the user while logging
  in schedules a second timeout, which fires in the \<open>desktop\<close> phase and calls
  \<open>onLogin\<close> again.
\<close>

theorem login_timer_outlives_unmount:
  "mounted (xp_run defaultUsers login_trace)
   \<and> phase (xp_run defaultUsers login_trace) = LoggingIn
   \<and> \<not> mounted (xp_run defaultUsers (login_trace @ [Unmount]))
   \<and> timers (xp_run defaultUsers (login_trace @ [Unmount])) = [LoginTimeout (defaultUsers ! 0)]
   \<and> loginCalls (xp_run defaultUsers (login_trace @ [Unmount])) = []
   \<and> loginCalls (xp_run defaultUsers (login_trace @ [Unmount, LoginDone (defaultUsers ! 0)]))
       = [defaultUsers ! 0]
   \<and> timers (xp_run defaultUsers (login_trace @ [ClickUser 0]))
       = [LoginTimeout (defaultUsers ! 0), LoginTimeout (defaultUsers ! 0)]
   \<and> phase (xp_run defaultUsers (login_trace @ [ClickUser 0, LoginDone (defaultUsers ! 0)]))
       = Desktop
   \<and> loginCalls (xp_run defaultUsers
        (login_trace @ [ClickUser 0, LoginDone (defaultUsers ! 0), LoginDone (defaultUsers ! 0)]))
       = [defaultUsers ! 0, defaultUsers ! 0]"
proof -
  have snoc2: "xp_run users (es @ [a, b]) = xp_step users (xp_step users (xp_run users es) a) b"
    for users es a b by (simp add: xp_run_def)
  have snoc3: "xp_run users (es @ [a, b, c])
      = xp_step users (xp_step users (xp_step users (xp_run users es) a) b) c"
    for users es a b c by (simp add: xp_run_def)
  show ?thesis
    unfolding xp_run_snoc snoc2 snoc3 login_trace_states
    by (simp add: xp_step_def xp_mount_def setPhase_def handleUserClick_def handleLogin_def
        defaultUsers_def Let_def)
qed

section \<open>The options modal with an unmatched theme id\<close>

lemma app_run_snoc: "app_run (es @ [e]) = app_step (app_run es) e"
  by (simp add: app_run_def)

lemma app_run_Nil: "app_run [] = app_init"
  by (simp add: app_run_def)

lemma buildCloverTheme_sel:
  "theme_id (buildCloverTheme n) = ''clover-'' @ n"
  "label (buildCloverTheme n) = n"
  "theme_type (buildCloverTheme n) = Clover"
  "style (buildCloverTheme n) = CloverStyle"
  "map entry_name (the (entries (buildCloverTheme n))) = [''macOS'', ''Windows'']"
  "map entry_id (the (entries (buildCloverTheme n))) = [''macos'', ''windows'']"
  "map url (the (entries (buildCloverTheme n))) = [Some [], Some []]"
  "map action_id (actions (buildCloverTheme n))
     = [''shell'', ''clover'', ''about'', ''options'', ''reset'', ''shutdown'']"
  "map action_name (actions (buildCloverTheme n))
     = [''UEFI Shell'', ''Clover Config'', ''About Clover'', ''Options'', ''Reset'', ''Shutdown'']"
  "entries (buildCloverTheme n) \<noteq> None"
  "(case entries (buildCloverTheme n) of None \<Rightarrow> a | Some es \<Rightarrow> f es)
     = f (the (entries (buildCloverTheme n)))"
  by (simp_all add: buildCloverTheme_def Let_def)

lemma buildCloverTheme_lengths:
  "length (the (entries (buildCloverTheme n))) = 2"
  "length (actions (buildCloverTheme n)) = 6"
  using buildCloverTheme_sel(5)[of n, THEN arg_cong, of length]
    buildCloverTheme_sel(8)[of n, THEN arg_cong, of length]
  by simp_all

lemma unmatched_theme: "theme_of unmatched_loaded = Some (buildCloverTheme ''demo'')"
  by (simp add: theme_of_def unmatched_loaded_def buildCloverTheme_sel)

lemma unmatched_rows:
  "entries_of unmatched_loaded = the (entries (buildCloverTheme ''demo''))"
  "actions_of unmatched_loaded = actions (buildCloverTheme ''demo'')"
  by (simp_all add: entries_of_def actions_of_def unmatched_theme buildCloverTheme_sel)

lemma first_entry: "js_nth (the (entries (buildCloverTheme n))) (Num 0) = Some (the (entries (buildCloverTheme n)) ! 0)"
  by (simp add: buildCloverTheme_lengths)

lemma first_entry_name: "entry_name (the (entries (buildCloverTheme n)) ! 0) = ''macOS''"
  using buildCloverTheme_sel(5)[of n, THEN arg_cong, of "\<lambda>xs. xs ! 0"]
  by (simp add: buildCloverTheme_lengths)

lemma entries_nonempty: "the (entries (buildCloverTheme n)) \<noteq> []"
  using buildCloverTheme_lengths(1)[of n] by auto

lemma allThemes_unmatched: "allThemes [] (Some [''demo'']) = [buildCloverTheme ''demo'']"
  by (simp add: allThemes_def)

lemma dispatch_unmatched: "after (dispatch app_init (Fetched (Some unmatched_config)))
      = unmatched_loaded"
proof -
  have f: "fetchPending app_init" by (simp add: app_init_def)
  have dt: "defaultTheme unmatched_config = ''missing''"
    "cfg_themes unmatched_config = Some []" "cloverThemes unmatched_config = Some [''demo'']"
    by (simp_all add: unmatched_config_def)
  have "fetchResolved unmatched_config (app_init\<lparr> fetchPending := False \<rparr>)
      = Done unmatched_loaded"
    unfolding fetchResolved_def dt
    by (simp add: allThemes_unmatched buildCloverTheme_sel first_entry first_entry_name
        entries_nonempty)
       (simp add: app_init_def unmatched_loaded_def)
  then show ?thesis by (simp add: dispatch_def f)
qed

lemma settle_unmatched: "settle app_init unmatched_loaded = unmatched_loaded"
proof -
  have r: "resetEffect unmatched_loaded unmatched_loaded = unmatched_loaded"
    by (simp add: resetEffect_def unmatched_theme unmatched_rows first_entry first_entry_name)
      (simp add: unmatched_loaded_def)
  have st: "statusEffect unmatched_loaded unmatched_loaded = unmatched_loaded"
    by (simp add: statusEffect_def unmatched_theme unmatched_rows first_entry_name)
       (simp add: unmatched_loaded_def buildCloverTheme_lengths first_entry_name)
  have ids: "themeId unmatched_loaded \<noteq> themeId app_init"
    by (simp add: unmatched_loaded_def app_init_def)
  have "runEffects app_init unmatched_loaded = unmatched_loaded"
    by (simp add: runEffects_def ids r st)
  moreover have "runEffects unmatched_loaded unmatched_loaded = unmatched_loaded"
    by (simp add: runEffects_def)
  ultimately show ?thesis by (simp add: settle_def)
qed

lemma unmatched_fetch: "app_run [Fetched (Some unmatched_config)] = unmatched_loaded"
  using app_run_snoc[of "[]" "Fetched (Some unmatched_config)"]
  by (simp add: app_run_Nil app_step_def dispatch_unmatched settle_unmatched)

lemma settle_refl: "settle s s = s"
  by (simp add: settle_def runEffects_def)

lemma options_action:
  "action_id (actions (buildCloverTheme n) ! 3) = ''options''"
  "action_name (actions (buildCloverTheme n) ! 3) = ''Options''"
  using buildCloverTheme_sel(8)[of n, THEN arg_cong, of "\<lambda>xs. xs ! 3"]
    buildCloverTheme_sel(9)[of n, THEN arg_cong, of "\<lambda>xs. xs ! 3"]
  by (simp_all add: buildCloverTheme_lengths)

lemma unmatched_click: "app_step unmatched_loaded (ClickAction 3) = unmatched_modal"
proof -
  have fi: "findIndex (\<lambda>t. theme_id t = ''missing'') [buildCloverTheme ''demo''] = - 1"
    by (simp add: buildCloverTheme_sel)
  have th: "themes unmatched_loaded = [buildCloverTheme ''demo'']"
    "themeId unmatched_loaded = ''missing''"
    by (simp_all add: unmatched_loaded_def)
  have d: "after (dispatch unmatched_loaded (ClickAction 3)) = unmatched_modal"
    by (simp add: dispatch_def unmatched_theme unmatched_rows buildCloverTheme_lengths
        options_action openOptions_def th buildCloverTheme_sel unmatched_modal_def)
  have tm: "theme_of unmatched_modal = Some (buildCloverTheme ''demo'')"
    using unmatched_theme by (simp add: theme_of_def unmatched_modal_def)
  have st: "statusEffect unmatched_modal unmatched_modal = unmatched_modal"
    by (simp add: statusEffect_def tm split: option.splits)
      (simp add: unmatched_modal_def)
  have ids: "themeId unmatched_modal = themeId unmatched_loaded"
    "themes unmatched_modal = themes unmatched_loaded"
    by (simp_all add: unmatched_modal_def)
  have "runEffects unmatched_loaded unmatched_modal = unmatched_modal"
    by (simp add: runEffects_def ids st)
  moreover have "runEffects unmatched_modal unmatched_modal = unmatched_modal"
    by (simp add: runEffects_def)
  ultimately show ?thesis by (simp add: app_step_def d settle_def)
qed

lemma unmatched_run:
  "app_run [Fetched (Some unmatched_config), ClickAction 3] = unmatched_modal"
  using app_run_snoc[of "[Fetched (Some unmatched_config)]" "ClickAction 3"]
  by (simp add: unmatched_fetch unmatched_click)

lemma unmatched_modal_fields:
  "showOptions unmatched_modal" "optionIndex unmatched_modal = Num (- 1)"
  "themes unmatched_modal = [buildCloverTheme ''demo'']"
  "themeId unmatched_modal = ''missing''"
  "theme_of unmatched_modal = Some (buildCloverTheme ''demo'')"
  "length (entries_of unmatched_modal) = 2"
  "length (actions_of unmatched_modal) = 6"
  by (simp_all add: unmatched_modal_def unmatched_loaded_def theme_of_def entries_of_def
      actions_of_def buildCloverTheme_sel buildCloverTheme_lengths)

text \<open>
  C9 on the code: when \<open>themeId\<close> matches no theme the picker shows \<open>themes[0]\<close>, all
  three rows are non-empty, and opening the options modal sets \<open>optionIndex\<close> to the
  \<open>-1\<close> that \<open>findIndex\<close> returns.
\<close>

theorem option_index_leaves_range:
  "length (entries_of (app_run [Fetched (Some unmatched_config), ClickAction 3])) = 2
   \<and> length (actions_of (app_run [Fetched (Some unmatched_config), ClickAction 3])) = 6
   \<and> length (themes (app_run [Fetched (Some unmatched_config), ClickAction 3])) = 1
   \<and> showOptions (app_run [Fetched (Some unmatched_config), ClickAction 3])
   \<and> optionIndex (app_run [Fetched (Some unmatched_config), ClickAction 3]) = Num (- 1)"
  by (simp add: unmatched_run unmatched_modal_fields)

text \<open>
  C5 on the code: with the modal open on that state, Enter reads \<open>themes[-1].id\<close> and
  throws; the modal stays open and the theme is not set.
\<close>

theorem enter_in_modal_throws:
  "showOptions (app_run [Fetched (Some unmatched_config), ClickAction 3])
   \<and> threw (dispatch (app_run [Fetched (Some unmatched_config), ClickAction 3]) (KeyDown Enter))
   \<and> app_run [Fetched (Some unmatched_config), ClickAction 3, KeyDown Enter]
       = app_run [Fetched (Some unmatched_config), ClickAction 3]
   \<and> showOptions (app_run [Fetched (Some unmatched_config), ClickAction 3, KeyDown Enter])
   \<and> themeId (app_run [Fetched (Some unmatched_config), ClickAction 3, KeyDown Enter])
       = ''missing''"
proof -
  have d: "dispatch unmatched_modal (KeyDown Enter) = TypeError unmatched_modal"
    by (simp add: dispatch_def handleKey_def unmatched_modal_fields)
  have "app_run [Fetched (Some unmatched_config), ClickAction 3, KeyDown Enter]
      = app_step unmatched_modal (KeyDown Enter)"
    using app_run_snoc[of "[Fetched (Some unmatched_config), ClickAction 3]" "KeyDown Enter"]
    by (simp add: unmatched_run)
  also have "\<dots> = unmatched_modal"
    by (simp add: app_step_def d settle_refl)
  finally show ?thesis
    by (simp add: unmatched_run d unmatched_modal_fields)
qed

section \<open>Loading the configuration\<close>

lemma statusEffect_themes: "themes (statusEffect r s) = themes s"
  by (subst statusEffect_only_status) simp

lemma resetEffect_themes: "themes (resetEffect r s) = themes s"
  by (simp add: resetEffect_def Let_def split: option.splits)

lemma runEffects_themes: "themes (runEffects p r) = themes r"
  by (simp add: runEffects_def Let_def statusEffect_themes resetEffect_themes)

lemma settle_themes: "themes (settle p r) = themes r"
  by (simp add: settle_def Let_def runEffects_themes)

lemma statusEffect_modal_fields:
  "themeId (statusEffect r s) = themeId s" "showOptions (statusEffect r s) = showOptions s"
  by (subst statusEffect_only_status, simp)+

lemma resetEffect_modal_fields:
  "themeId (resetEffect r s) = themeId s" "showOptions (resetEffect r s) = showOptions s"
  by (simp_all add: resetEffect_def Let_def split: option.splits)

lemma runEffects_modal_fields:
  "themeId (runEffects p r) = themeId r" "showOptions (runEffects p r) = showOptions r"
  by (simp_all add: runEffects_def Let_def statusEffect_modal_fields resetEffect_modal_fields)

lemma settle_modal_fields:
  "themeId (settle p r) = themeId r" "showOptions (settle p r) = showOptions r"
  by (simp_all add: settle_def Let_def runEffects_modal_fields)

lemma step_without_theme:
  assumes "theme_of s = None" "navTimers s = []" "\<not> settles_fetch e \<or> \<not> fetchPending s"
  shows "app_step s e = s"
proof -
  have "dispatch s e = Done s"
    using assms by (cases e) (auto simp: dispatch_def)
  then show ?thesis by (simp add: app_step_def settle_refl)
qed

lemma init_no_theme: "theme_of app_init = None" "navTimers app_init = []"
  by (simp_all add: theme_of_def app_init_def)

lemma failed_no_theme:
  "theme_of failed_state = None" "navTimers failed_state = []" "\<not> fetchPending failed_state"
  by (simp_all add: theme_of_def app_init_def failed_state_def)

lemma foldl_fixed:
  assumes "\<And>e. f s e = s"
  shows "foldl f s es = s"
  by (induction es) (simp_all add: assms)

lemma run_before_fetch:
  assumes "list_all (\<lambda>e. \<not> settles_fetch e) pre"
  shows "app_run pre = app_init"
  using assms
proof (induction pre rule: rev_induct)
  case Nil
  show ?case by (simp add: app_run_def)
next
  case (snoc e es)
  then have "app_run es = app_init" "\<not> settles_fetch e" by simp_all
  then show ?case
    by (simp add: app_run_snoc step_without_theme init_no_theme)
qed

lemma fetch_rejected_step: "app_step app_init (Fetched None) = failed_state"
proof -
  have "after (dispatch app_init (Fetched None)) = failed_state"
    by (simp add: dispatch_def fetchRejected_def failed_state_def app_init_def)
  moreover have "settle app_init failed_state = failed_state"
    by (simp add: settle_def runEffects_def failed_state_def)
  ultimately show ?thesis by (simp add: app_step_def)
qed

lemma fetch_themeless_step:
  assumes "cfg_themes data = None"
  shows "app_step app_init (Fetched (Some data)) = failed_state\<lparr> config := Some data \<rparr>"
proof -
  have "fetchResolved data (app_init\<lparr> fetchPending := False \<rparr>)
      = TypeError (app_init\<lparr> fetchPending := False, config := Some data \<rparr>)"
    using assms by (simp add: fetchResolved_def)
  then have "after (dispatch app_init (Fetched (Some data))) = failed_state\<lparr> config := Some data \<rparr>"
    by (simp add: dispatch_def fetchRejected_def failed_state_def app_init_def)
  moreover have "settle app_init (failed_state\<lparr> config := Some data \<rparr>)
      = failed_state\<lparr> config := Some data \<rparr>"
    by (simp add: settle_def runEffects_def failed_state_def)
  ultimately show ?thesis by (simp add: app_step_def)
qed

lemma failed_config_no_theme:
  "theme_of (failed_state\<lparr> config := c \<rparr>) = None"
  "navTimers (failed_state\<lparr> config := c \<rparr>) = []"
  "\<not> fetchPending (failed_state\<lparr> config := c \<rparr>)"
  by (simp_all add: theme_of_def app_init_def failed_state_def)

lemma failed_run:
  assumes "list_all (\<lambda>e. \<not> settles_fetch e) pre"
    and "app_step app_init (Fetched r) = failed_state\<lparr> config := c \<rparr>"
  shows "app_run (pre @ Fetched r # post) = failed_state\<lparr> config := c \<rparr>"
proof -
  have "app_run (pre @ Fetched r # post)
      = foldl app_step (app_step (app_run pre) (Fetched r)) post"
    by (simp add: app_run_def)
  also have "\<dots> = foldl app_step (failed_state\<lparr> config := c \<rparr>) post"
    by (simp add: run_before_fetch[OF assms(1)] assms(2))
  also have "\<dots> = failed_state\<lparr> config := c \<rparr>"
    by (rule foldl_fixed) (simp add: step_without_theme failed_config_no_theme)
  finally show ?thesis .
qed

lemma statusEffect_fetchPending: "fetchPending (statusEffect r s) = fetchPending s"
  by (subst statusEffect_only_status) simp

lemma resetEffect_fetchPending: "fetchPending (resetEffect r s) = fetchPending s"
  by (simp add: resetEffect_def Let_def split: option.splits)

lemma runEffects_fetchPending: "fetchPending (runEffects p r) = fetchPending r"
  by (simp add: runEffects_def Let_def statusEffect_fetchPending resetEffect_fetchPending)

lemma settle_fetchPending: "fetchPending (settle p r) = fetchPending r"
  by (simp add: settle_def Let_def runEffects_fetchPending)

lemma handleKey_fetchPending: "fetchPending (after (handleKey s k)) = fetchPending s"
  by (cases k)
    (simp_all add: handleKey_def bootEntry_def openOptions_def split: option.splits list.splits)

lemma dispatch_fetchPending:
  assumes "\<not> fetchPending s"
  shows "\<not> fetchPending (after (dispatch s e))"
  using assms
  by (cases e)
    (simp_all add: dispatch_def handleKey_fetchPending bootEntry_def openOptions_def Let_def
      split: option.splits list.splits)

lemma fetch_not_repeated:
  assumes "\<not> fetchPending s"
  shows "\<not> fetchPending (app_step s e)" and "app_step s (Fetched r) = s"
proof -
  show "\<not> fetchPending (app_step s e)"
    using dispatch_fetchPending[OF assms] by (simp add: app_step_def settle_fetchPending)
  have "dispatch s (Fetched r) = Done s" using assms by (simp add: dispatch_def)
  then show "app_step s (Fetched r) = s" by (simp add: app_step_def settle_refl)
qed

lemma fetchResolved_fetchPending:
  "fetchPending (after (fetchResolved data s)) = fetchPending s"
  by (simp add: fetchResolved_def Let_def split: option.splits)

lemma js_nth_Nil: "js_nth [] i = None"
  by (cases i) simp_all

lemma runEffects_entries: "entries_of (runEffects p r) = entries_of r"
  by (simp add: entries_of_def theme_of_def runEffects_themes runEffects_modal_fields)

lemma resetEffect_status_no_entries:
  "entries_of r = [] \<Longrightarrow> status (resetEffect r s) = status s"
  by (simp add: resetEffect_def Let_def js_nth_Nil split: option.splits)

lemma statusEffect_status_no_entries:
  "entries_of r = [] \<Longrightarrow> status (statusEffect r s) = status s"
  by (simp add: statusEffect_def js_nth_Nil split: option.splits)

lemma runEffects_status_no_entries:
  "entries_of r = [] \<Longrightarrow> status (runEffects p r) = status r"
  by (simp add: runEffects_def Let_def resetEffect_status_no_entries
      statusEffect_status_no_entries)

lemma settle_status_no_entries:
  assumes "entries_of r = []"
  shows "status (settle p r) = status r"
proof -
  have "entries_of (runEffects p r) = []" using assms by (simp add: runEffects_entries)
  then have "status (runEffects r (runEffects p r)) = status (runEffects p r)"
    by (rule runEffects_status_no_entries)
  then show ?thesis using assms by (simp add: settle_def Let_def runEffects_status_no_entries)
qed

lemma thrown_load_status:
  assumes "threw (fetchResolved data (app_init\<lparr> fetchPending := False \<rparr>))"
  shows "status (app_step app_init (Fetched (Some data))) = ''Failed to load config''"
proof -
  let ?s = "app_init\<lparr> fetchPending := False \<rparr>"
  from assms obtain s1 where t: "fetchResolved data ?s = TypeError s1"
    by (cases "fetchResolved data ?s") simp_all
  have d: "after (dispatch app_init (Fetched (Some data))) = fetchRejected s1"
    using t by (simp add: dispatch_def app_init_def)
  show ?thesis
  proof (cases "cfg_themes data")
    case None
    then show ?thesis by (simp add: fetch_themeless_step failed_state_def)
  next
    case (Some cs)
    let ?all = "allThemes cs (cloverThemes data)"
    let ?id = "if defaultTheme data = [] then ''classic'' else defaultTheme data"
    from t Some obtain th where
      th: "nullish (find (\<lambda>x. theme_id x = ?id) ?all) (js_nth ?all (Num 0)) = Some th"
        "entries th = None"
      and s1: "s1 = ?s\<lparr> config := Some data, themes := ?all, themeId := ?id \<rparr>"
      by (auto simp: fetchResolved_def Let_def split: option.splits)
    let ?r = "fetchRejected s1"
    have tr: "theme_of ?r = Some th"
      using th(1) by (simp add: theme_of_def fetchRejected_def s1)
    then have er: "entries_of ?r = []" by (simp add: entries_of_def th(2))
    have st: "status ?r = ''Failed to load config''" by (simp add: fetchRejected_def)
    have "status (settle app_init ?r) = status ?r"
      using er by (rule settle_status_no_entries)
    then have "status (settle app_init ?r) = ''Failed to load config''"
      by (simp add: st)
    then show ?thesis by (simp add: app_step_def d)
  qed
qed

lemma entryless_load:
  "fetchResolved entryless_config (app_init\<lparr> fetchPending := False \<rparr>)
     = TypeError (app_init\<lparr> fetchPending := False, config := Some entryless_config,
         themes := [withStyle entryless_theme], themeId := ''classic'' \<rparr>)"
  "themes (app_step app_init (Fetched (Some entryless_config))) = [withStyle entryless_theme]"
  "themeId (app_step app_init (Fetched (Some entryless_config))) = ''classic''"
proof -
  have ws: "theme_id (withStyle entryless_theme) = ''classic''"
    "entries (withStyle entryless_theme) = None"
    by (simp_all add: withStyle_def entryless_theme_def)
  show t: "fetchResolved entryless_config (app_init\<lparr> fetchPending := False \<rparr>)
     = TypeError (app_init\<lparr> fetchPending := False, config := Some entryless_config,
         themes := [withStyle entryless_theme], themeId := ''classic'' \<rparr>)"
    by (simp add: fetchResolved_def entryless_config_def allThemes_def ws)
  have d: "after (dispatch app_init (Fetched (Some entryless_config)))
      = fetchRejected (app_init\<lparr> fetchPending := False, config := Some entryless_config,
         themes := [withStyle entryless_theme], themeId := ''classic'' \<rparr>)"
    by (simp add: dispatch_def t) (simp add: app_init_def)
  show "themes (app_step app_init (Fetched (Some entryless_config))) = [withStyle entryless_theme]"
    by (simp add: app_step_def settle_themes d fetchRejected_def)
  show "themeId (app_step app_init (Fetched (Some entryless_config))) = ''classic''"
    by (simp add: app_step_def settle_modal_fields d fetchRejected_def)
qed

text \<open>
  C6, as stated, fails when the configuration is malformed in such a way that the
  callback throws only after it has stored the theme list: for a body whose default
  theme has no \<open>entries\<close> the load fails with "Failed to load config", but the theme
  list is not empty and the themed screen is rendered with that status.
\<close>

theorem failed_load_shows_theme_counterexample:
  "threw (fetchResolved entryless_config (app_init\<lparr> fetchPending := False \<rparr>))
   \<and> status (app_run [Fetched (Some entryless_config)]) = ''Failed to load config''
   \<and> themes (app_run [Fetched (Some entryless_config)]) \<noteq> []
   \<and> render (app_run [Fetched (Some entryless_config)])
       = ThemeScreen (withStyle entryless_theme) ''Failed to load config''"
proof -
  have run: "app_run [Fetched (Some entryless_config)]
      = app_step app_init (Fetched (Some entryless_config))"
    by (simp add: app_run_def)
  have thr: "threw (fetchResolved entryless_config (app_init\<lparr> fetchPending := False \<rparr>))"
    by (simp add: entryless_load(1))
  have st: "status (app_run [Fetched (Some entryless_config)]) = ''Failed to load config''"
    unfolding run using thr by (rule thrown_load_status)
  have "theme_of (app_run [Fetched (Some entryless_config)]) = Some (withStyle entryless_theme)"
    unfolding run
    by (simp add: theme_of_def entryless_load)
  then show ?thesis
    using thr st by (simp add: render_def run entryless_load)
qed

text \<open>
  C6, amended. If the fetch of config.json is rejected (the request failed or the body
  is not JSON) or the body has no \<open>themes\<close>, so that the callback throws before it stores
  a theme list, then whatever events came before and whatever events follow, the state
  is the initial one with the status "Failed to load config" (and the body as
  \<open>config\<close>): the theme list is empty and the component renders the loading screen with
  that status. Whenever the callback throws, the status after the load is "Failed to
  load config". The request is issued once: once it has settled it is never pending
  again and a further outcome changes nothing.
\<close>

theorem failed_load_is_final:
  "(list_all (\<lambda>e. \<not> settles_fetch e) pre \<longrightarrow>
      app_run (pre @ Fetched None # post)
        = app_init\<lparr> status := ''Failed to load config'', fetchPending := False \<rparr>
      \<and> themes (app_run (pre @ Fetched None # post)) = []
      \<and> render (app_run (pre @ Fetched None # post)) = LoadingScreen ''Failed to load config'')
   \<and> (list_all (\<lambda>e. \<not> settles_fetch e) pre \<and> cfg_themes data = None \<longrightarrow>
      app_run (pre @ Fetched (Some data) # post)
        = app_init\<lparr> config := Some data, status := ''Failed to load config'',
            fetchPending := False \<rparr>
      \<and> themes (app_run (pre @ Fetched (Some data) # post)) = []
      \<and> render (app_run (pre @ Fetched (Some data) # post))
          = LoadingScreen ''Failed to load config'')
   \<and> (list_all (\<lambda>e. \<not> settles_fetch e) pre
        \<and> threw (fetchResolved body (app_init\<lparr> fetchPending := False \<rparr>)) \<longrightarrow>
      status (app_run (pre @ [Fetched (Some body)])) = ''Failed to load config'')
   \<and> \<not> fetchPending (app_step s (Fetched r))
   \<and> (\<not> fetchPending s \<longrightarrow>
        \<not> fetchPending (app_step s e) \<and> app_step s (Fetched r) = s)"
proof (intro conjI impI)
  assume pre: "list_all (\<lambda>e. \<not> settles_fetch e) pre"
  have "failed_state\<lparr> config := None \<rparr> = failed_state"
    by (simp add: failed_state_def app_init_def)
  then have "app_step app_init (Fetched None) = failed_state\<lparr> config := None \<rparr>"
    by (simp add: fetch_rejected_step)
  with pre have run: "app_run (pre @ Fetched None # post) = failed_state\<lparr> config := None \<rparr>"
    by (rule failed_run)
  show "app_run (pre @ Fetched None # post)
        = app_init\<lparr> status := ''Failed to load config'', fetchPending := False \<rparr>"
    unfolding run by (simp add: failed_state_def app_init_def)
  show "themes (app_run (pre @ Fetched None # post)) = []"
    unfolding run by (simp add: failed_state_def app_init_def)
  show "render (app_run (pre @ Fetched None # post)) = LoadingScreen ''Failed to load config''"
    unfolding run by (simp add: render_def failed_config_no_theme) (simp add: failed_state_def)
next
  assume a: "list_all (\<lambda>e. \<not> settles_fetch e) pre \<and> cfg_themes data = None"
  then have run: "app_run (pre @ Fetched (Some data) # post)
      = failed_state\<lparr> config := Some data \<rparr>"
    by (intro failed_run fetch_themeless_step) simp_all
  show "app_run (pre @ Fetched (Some data) # post)
        = app_init\<lparr> config := Some data, status := ''Failed to load config'',
            fetchPending := False \<rparr>"
    unfolding run by (simp add: failed_state_def)
  show "themes (app_run (pre @ Fetched (Some data) # post)) = []"
    unfolding run by (simp add: failed_state_def app_init_def)
  show "render (app_run (pre @ Fetched (Some data) # post))
          = LoadingScreen ''Failed to load config''"
    unfolding run by (simp add: render_def failed_config_no_theme) (simp add: failed_state_def)
next
  assume a: "list_all (\<lambda>e. \<not> settles_fetch e) pre
        \<and> threw (fetchResolved body (app_init\<lparr> fetchPending := False \<rparr>))"
  then have "app_run (pre @ [Fetched (Some body)]) = app_step app_init (Fetched (Some body))"
    by (simp add: app_run_snoc run_before_fetch)
  then show "status (app_run (pre @ [Fetched (Some body)])) = ''Failed to load config''"
    using a by (simp add: thrown_load_status)
next
  show "\<not> fetchPending (app_step s (Fetched r))"
  proof (cases "fetchPending s")
    case True
    have "\<not> fetchPending (after (fetchResolved data (s\<lparr> fetchPending := False \<rparr>)))" for data
      by (simp add: fetchResolved_fetchPending)
    then have "\<not> fetchPending (after (dispatch s (Fetched r)))"
      using True
      by (cases r; simp add: dispatch_def fetchRejected_def split: outcome.splits)
        (metis after.simps)
    then show ?thesis by (simp add: app_step_def settle_fetchPending)
  next
    case False
    then show ?thesis by (simp add: fetch_not_repeated)
  qed
next
  assume "\<not> fetchPending s"
  then show "\<not> fetchPending (app_step s e)" and "app_step s (Fetched r) = s"
    by (rule fetch_not_repeated)+
qed

theorem failed_load_is_final_witness:
  "list_all (\<lambda>e. \<not> settles_fetch e) [KeyDown Enter, ClickEntry 0]
   \<and> render (app_run ([KeyDown Enter, ClickEntry 0] @ Fetched None
        # [KeyDown ArrowDown, Fetched (Some unmatched_config), KeyDown Enter]))
       = LoadingScreen ''Failed to load config''
   \<and> themes (app_run ([KeyDown Enter, ClickEntry 0] @ Fetched None
        # [KeyDown ArrowDown, Fetched (Some unmatched_config), KeyDown Enter])) = []
   \<and> cfg_themes themeless_config = None
   \<and> render (app_run ([KeyDown Enter, ClickEntry 0] @ Fetched (Some themeless_config)
        # [KeyDown ArrowDown, Fetched (Some unmatched_config), KeyDown Enter]))
       = LoadingScreen ''Failed to load config''
   \<and> threw (fetchResolved entryless_config (app_init\<lparr> fetchPending := False \<rparr>))
   \<and> status (app_run ([KeyDown Enter, ClickEntry 0] @ [Fetched (Some entryless_config)]))
       = ''Failed to load config''
   \<and> \<not> fetchPending failed_state
   \<and> app_step failed_state (Fetched (Some unmatched_config)) = failed_state"
proof -
  have h: "list_all (\<lambda>e. \<not> settles_fetch e) [KeyDown Enter, ClickEntry 0]"
    "cfg_themes themeless_config = None"
    "threw (fetchResolved entryless_config (app_init\<lparr> fetchPending := False \<rparr>))"
    "\<not> fetchPending failed_state"
    by (simp_all add: themeless_config_def entryless_load(1) failed_state_def)
  show ?thesis
    using h failed_load_is_final[where pre = "[KeyDown Enter, ClickEntry 0]"
        and post = "[KeyDown ArrowDown, Fetched (Some unmatched_config), KeyDown Enter]"
        and data = themeless_config and body = entryless_config and s = failed_state
        and r = "Some unmatched_config" and e = "KeyDown Enter"]
    by (simp add: render_def theme_of_def app_init_def)
qed

lemma fetchResolved_themes:
  assumes "cfg_themes data = Some cs"
  shows "themes (after (fetchResolved data s)) = allThemes cs (cloverThemes data)"
  using assms by (simp add: fetchResolved_def Let_def split: option.splits)

lemma fetched_themes:
  assumes "cfg_themes data = Some cs"
  shows "themes (app_step app_init (Fetched (Some data))) = allThemes cs (cloverThemes data)"
proof -
  have "fetchPending app_init" by (simp add: app_init_def)
  then have "themes (after (dispatch app_init (Fetched (Some data))))
      = themes (after (fetchResolved data (app_init\<lparr> fetchPending := False \<rparr>)))"
    by (simp add: dispatch_def fetchRejected_def split: outcome.splits)
  then show ?thesis
    by (simp add: app_step_def settle_themes fetchResolved_themes[OF assms])
qed

text \<open>
  C7. After the load of a body that has a \<open>themes\<close> array the theme list consists of
  the themes of the configuration, in order and field for field, each with the style
  computed from it
  (clover for type clover, classic for id "classic", modern otherwise), followed by one
  synthesized theme per name of \<open>cloverThemes\<close> (none when it is absent), with id
  "clover-" followed by the name, the name as label, the entries macOS and Windows and
  six actions.
\<close>

theorem themes_built_from_config:
  "cfg_themes data = Some cs \<longrightarrow>
   length (themes (app_step app_init (Fetched (Some data))))
     = length cs
       + length (case cloverThemes data of None \<Rightarrow> [] | Some names \<Rightarrow> names)
   \<and> (\<forall>i < length cs.
        theme_id (themes (app_step app_init (Fetched (Some data))) ! i)
          = theme_id (cs ! i)
        \<and> label (themes (app_step app_init (Fetched (Some data))) ! i)
          = label (cs ! i)
        \<and> theme_type (themes (app_step app_init (Fetched (Some data))) ! i)
          = theme_type (cs ! i)
        \<and> background (themes (app_step app_init (Fetched (Some data))) ! i)
          = background (cs ! i)
        \<and> logo (themes (app_step app_init (Fetched (Some data))) ! i)
          = logo (cs ! i)
        \<and> entries (themes (app_step app_init (Fetched (Some data))) ! i)
          = entries (cs ! i)
        \<and> actions (themes (app_step app_init (Fetched (Some data))) ! i)
          = actions (cs ! i)
        \<and> style (themes (app_step app_init (Fetched (Some data))) ! i)
          = (if theme_type (cs ! i) = Clover then CloverStyle
             else if theme_id (cs ! i) = ''classic'' then Classic
             else Modern))
   \<and> (\<forall>j < length (case cloverThemes data of None \<Rightarrow> [] | Some names \<Rightarrow> names).
        theme_id (themes (app_step app_init (Fetched (Some data))) ! (length cs + j))
          = ''clover-'' @ (case cloverThemes data of None \<Rightarrow> [] | Some names \<Rightarrow> names) ! j
        \<and> label (themes (app_step app_init (Fetched (Some data))) ! (length cs + j))
          = (case cloverThemes data of None \<Rightarrow> [] | Some names \<Rightarrow> names) ! j
        \<and> map_option (map entry_name)
            (entries (themes (app_step app_init (Fetched (Some data))) ! (length cs + j)))
          = Some [''macOS'', ''Windows'']
        \<and> length (actions (themes (app_step app_init (Fetched (Some data)))
             ! (length cs + j))) = 6)"
proof
  assume cs: "cfg_themes data = Some cs"
  let ?names = "case cloverThemes data of None \<Rightarrow> [] | Some names \<Rightarrow> names"
  let ?all = "allThemes cs (cloverThemes data)"
  have len: "length ?all = length cs + length ?names"
    by (simp add: allThemes_def)
  have builtin: "?all ! i = withStyle (cs ! i)"
    if "i < length cs" for i
    using that by (simp add: allThemes_def nth_append)
  have clover: "?all ! (length cs + j) = buildCloverTheme (?names ! j)"
    if "j < length ?names" for j
    using that by (simp add: allThemes_def nth_append)
  have ws: "theme_id (withStyle c) = theme_id c \<and> label (withStyle c) = label c
      \<and> theme_type (withStyle c) = theme_type c \<and> background (withStyle c) = background c
      \<and> logo (withStyle c) = logo c \<and> entries (withStyle c) = entries c
      \<and> actions (withStyle c) = actions c
      \<and> style (withStyle c) = (if theme_type c = Clover then CloverStyle
             else if theme_id c = ''classic'' then Classic else Modern)" for c
    by (simp add: withStyle_def getThemeStyle_def)
  have cl: "theme_id (buildCloverTheme n) = ''clover-'' @ n \<and> label (buildCloverTheme n) = n
      \<and> map_option (map entry_name) (entries (buildCloverTheme n)) = Some [''macOS'', ''Windows'']
      \<and> length (actions (buildCloverTheme n)) = 6" for n
    by (simp add: buildCloverTheme_sel buildCloverTheme_lengths)
      (simp add: buildCloverTheme_def Let_def)
  show "length (themes (app_step app_init (Fetched (Some data))))
     = length cs + length ?names
   \<and> (\<forall>i < length cs.
        theme_id (themes (app_step app_init (Fetched (Some data))) ! i)
          = theme_id (cs ! i)
        \<and> label (themes (app_step app_init (Fetched (Some data))) ! i)
          = label (cs ! i)
        \<and> theme_type (themes (app_step app_init (Fetched (Some data))) ! i)
          = theme_type (cs ! i)
        \<and> background (themes (app_step app_init (Fetched (Some data))) ! i)
          = background (cs ! i)
        \<and> logo (themes (app_step app_init (Fetched (Some data))) ! i)
          = logo (cs ! i)
        \<and> entries (themes (app_step app_init (Fetched (Some data))) ! i)
          = entries (cs ! i)
        \<and> actions (themes (app_step app_init (Fetched (Some data))) ! i)
          = actions (cs ! i)
        \<and> style (themes (app_step app_init (Fetched (Some data))) ! i)
          = (if theme_type (cs ! i) = Clover then CloverStyle
             else if theme_id (cs ! i) = ''classic'' then Classic
             else Modern))
   \<and> (\<forall>j < length ?names.
        theme_id (themes (app_step app_init (Fetched (Some data))) ! (length cs + j))
          = ''clover-'' @ ?names ! j
        \<and> label (themes (app_step app_init (Fetched (Some data))) ! (length cs + j))
          = ?names ! j
        \<and> map_option (map entry_name)
            (entries (themes (app_step app_init (Fetched (Some data))) ! (length cs + j)))
          = Some [''macOS'', ''Windows'']
        \<and> length (actions (themes (app_step app_init (Fetched (Some data)))
             ! (length cs + j))) = 6)"
    unfolding fetched_themes[OF cs]
  proof (intro conjI allI impI)
    show "length ?all = length cs + length ?names" by (rule len)
  qed (simp_all only: builtin clover ws cl)
qed

theorem themes_built_from_config_witness:
  "length (themes (app_step app_init (Fetched (Some example_config)))) = 2
   \<and> theme_id (themes (app_step app_init (Fetched (Some example_config))) ! 0) = ''classic''
   \<and> style (themes (app_step app_init (Fetched (Some example_config))) ! 0) = Classic
   \<and> theme_id (themes (app_step app_init (Fetched (Some example_config))) ! 1) = ''clover-demo''
   \<and> label (themes (app_step app_init (Fetched (Some example_config))) ! 1) = ''demo''
   \<and> length (actions (themes (app_step app_init (Fetched (Some example_config))) ! 1)) = 6"
  using themes_built_from_config[of example_config "the (cfg_themes example_config)"]
  by (simp add: example_config_def)

lemma clover_entry_url:
  assumes "e \<in> set (the (entries (buildCloverTheme n)))"
  shows "url e = Some []"
proof -
  from assms have "url e \<in> set (map url (the (entries (buildCloverTheme n))))" by simp
  then show ?thesis by (simp add: buildCloverTheme_sel)
qed

lemma bootEntry_no_url:
  assumes "url e = Some []"
  shows "bootEntry e s = s\<lparr> status := ''Boot '' @ entry_name e @ '' (no URL configured)'' \<rparr>"
  using assms by (simp add: bootEntry_def)

lemma settle_status_only: "settle s (s\<lparr> status := x \<rparr>) = s\<lparr> status := x \<rparr>"
  by (simp add: settle_def runEffects_def)

lemma js_nth_mem: "js_nth xs i = Some x \<Longrightarrow> x \<in> set xs"
  by (cases i) (auto split: if_splits)

text \<open>
  C10. Every entry of a theme made by \<open>buildCloverTheme\<close> has the empty URL, and
  \<open>bootEntry\<close> on it only sets the status to "Boot <name> (no URL configured)". So
  while such a theme is shown, Enter on the selected entry and a double click on an
  entry change nothing but the status: no timer is scheduled and no URL is assigned.
\<close>

theorem clover_entries_do_not_navigate:
  "entries (buildCloverTheme n) \<noteq> None
   \<and> (entries (buildCloverTheme n) = Some es \<and> e \<in> set es \<longrightarrow>
      url e = Some []
      \<and> bootEntry e s = s\<lparr> status := ''Boot '' @ entry_name e @ '' (no URL configured)'' \<rparr>)
   \<and> (theme_of s = Some (buildCloverTheme n) \<and> \<not> showOptions s \<and> activeRow s = EntriesRow
        \<and> js_nth (entries_of s) (selectedIndex s) = Some e \<longrightarrow>
      app_step s (KeyDown Enter)
        = s\<lparr> status := ''Boot '' @ entry_name e @ '' (no URL configured)'' \<rparr>
      \<and> navTimers (app_step s (KeyDown Enter)) = navTimers s
      \<and> location (app_step s (KeyDown Enter)) = location s)
   \<and> (theme_of s = Some (buildCloverTheme n) \<and> i < length (entries_of s) \<longrightarrow>
      app_step s (DblClickEntry i)
        = s\<lparr> status := ''Boot '' @ entry_name (entries_of s ! i) @ '' (no URL configured)'' \<rparr>
      \<and> navTimers (app_step s (DblClickEntry i)) = navTimers s
      \<and> location (app_step s (DblClickEntry i)) = location s)"
proof (intro conjI impI)
  show "entries (buildCloverTheme n) \<noteq> None" by (simp add: buildCloverTheme_sel)
next
  assume "entries (buildCloverTheme n) = Some es \<and> e \<in> set es"
  then have "e \<in> set (the (entries (buildCloverTheme n)))" by simp
  then show "url e = Some []" by (rule clover_entry_url)
  then show "bootEntry e s = s\<lparr> status := ''Boot '' @ entry_name e @ '' (no URL configured)'' \<rparr>"
    by (rule bootEntry_no_url)
next
  assume a: "theme_of s = Some (buildCloverTheme n) \<and> \<not> showOptions s \<and> activeRow s = EntriesRow
        \<and> js_nth (entries_of s) (selectedIndex s) = Some e"
  then have es: "entries_of s = the (entries (buildCloverTheme n))"
    by (simp add: entries_of_def buildCloverTheme_sel)
  with a have "e \<in> set (the (entries (buildCloverTheme n)))" using js_nth_mem by metis
  then have b: "bootEntry e s = s\<lparr> status := ''Boot '' @ entry_name e @ '' (no URL configured)'' \<rparr>"
    using clover_entry_url bootEntry_no_url by blast
  have "dispatch s (KeyDown Enter) = Done (bootEntry e s)"
    using a by (simp add: dispatch_def handleKey_def)
  then show k: "app_step s (KeyDown Enter)
        = s\<lparr> status := ''Boot '' @ entry_name e @ '' (no URL configured)'' \<rparr>"
    by (simp add: app_step_def b settle_status_only)
  show "navTimers (app_step s (KeyDown Enter)) = navTimers s" by (simp add: k)
  show "location (app_step s (KeyDown Enter)) = location s" by (simp add: k)
next
  assume a: "theme_of s = Some (buildCloverTheme n) \<and> i < length (entries_of s)"
  then have es: "entries_of s = the (entries (buildCloverTheme n))"
    by (simp add: entries_of_def buildCloverTheme_sel)
  with a have "entries_of s ! i \<in> set (the (entries (buildCloverTheme n)))" by simp
  then have b: "bootEntry (entries_of s ! i) s
      = s\<lparr> status := ''Boot '' @ entry_name (entries_of s ! i) @ '' (no URL configured)'' \<rparr>"
    using clover_entry_url bootEntry_no_url by blast
  have "dispatch s (DblClickEntry i) = Done (bootEntry (entries_of s ! i) s)"
    using a by (simp add: dispatch_def)
  then show k: "app_step s (DblClickEntry i)
        = s\<lparr> status := ''Boot '' @ entry_name (entries_of s ! i) @ '' (no URL configured)'' \<rparr>"
    by (simp add: app_step_def b settle_status_only)
  show "navTimers (app_step s (DblClickEntry i)) = navTimers s" by (simp add: k)
  show "location (app_step s (DblClickEntry i)) = location s" by (simp add: k)
qed

theorem clover_entries_do_not_navigate_witness:
  "entries (buildCloverTheme ''demo'') = Some (entries_of example_state)
   \<and> entries_of example_state ! 0 \<in> set (entries_of example_state)
   \<and> theme_of example_state = Some (buildCloverTheme ''demo'')
   \<and> js_nth (entries_of example_state) (selectedIndex example_state)
       = Some (entries_of example_state ! 0)
   \<and> status (app_step example_state (KeyDown Enter)) = ''Boot macOS (no URL configured)''
   \<and> status (app_step example_state (DblClickEntry 1)) = ''Boot Windows (no URL configured)''
   \<and> navTimers (app_step example_state (KeyDown Enter)) = []
   \<and> location (app_step example_state (DblClickEntry 1)) = None"
proof -
  have es: "entries_of example_state = the (entries (buildCloverTheme ''demo''))"
    by (simp add: entries_of_def example_state_rows buildCloverTheme_sel)
  have so: "entries (buildCloverTheme ''demo'') = Some (entries_of example_state)"
    by (simp add: es) (simp add: buildCloverTheme_def Let_def)
  have f: "\<not> showOptions example_state" "activeRow example_state = EntriesRow"
    "selectedIndex example_state = Num 0" "navTimers example_state = []"
    "location example_state = None"
    by (simp_all add: example_state_def)
  have n: "entry_name (the (entries (buildCloverTheme ''demo'')) ! Suc 0) = ''Windows''"
    using buildCloverTheme_sel(5)[of "''demo''", THEN arg_cong, of "\<lambda>xs. xs ! Suc 0"]
    by (simp add: buildCloverTheme_lengths)
  show ?thesis
    using so clover_entries_do_not_navigate[where n = "''demo''"
        and es = "entries_of example_state" and e = "entries_of example_state ! 0"
        and s = example_state and i = 1]
    by (simp add: es f n example_state_rows first_entry first_entry_name buildCloverTheme_lengths)
qed

section \<open>Index updates as functions of index, length and key\<close>

lemma prevIndex_length: "length xs = length ys \<Longrightarrow> prevIndex c xs = prevIndex c ys"
  by (simp add: prevIndex_def js_length_def)

lemma nextIndex_length: "length xs = length ys \<Longrightarrow> nextIndex c xs = nextIndex c ys"
  by (simp add: nextIndex_def js_length_def)

lemma statusEffect_optionIndex: "optionIndex (statusEffect r s) = optionIndex s"
  by (subst statusEffect_only_status) simp

lemma resetEffect_optionIndex: "optionIndex (resetEffect r s) = optionIndex s"
  by (simp add: resetEffect_def Let_def split: option.splits)

lemma runEffects_optionIndex: "optionIndex (runEffects p r) = optionIndex r"
  by (simp add: runEffects_def Let_def statusEffect_optionIndex resetEffect_optionIndex)

lemma settle_optionIndex: "optionIndex (settle p r) = optionIndex r"
  by (simp add: settle_def Let_def runEffects_optionIndex)

lemma selected_after_key:
  assumes "theme_of s = Some t" "\<not> showOptions s" "activeRow s = EntriesRow"
  shows "selectedIndex (app_step s (KeyDown k))
           = (case k of
                ArrowLeft \<Rightarrow> prevIndex (selectedIndex s) (entries_of s)
              | ArrowRight \<Rightarrow> nextIndex (selectedIndex s) (entries_of s)
              | _ \<Rightarrow> selectedIndex s)"
proof -
  have "selectedIndex (app_step s (KeyDown k)) = selectedIndex (after (dispatch s (KeyDown k)))"
    by (subst app_step_key_closed[OF assms(2)]) simp
  also have "\<dots> = (case k of
                ArrowLeft \<Rightarrow> prevIndex (selectedIndex s) (entries_of s)
              | ArrowRight \<Rightarrow> nextIndex (selectedIndex s) (entries_of s)
              | _ \<Rightarrow> selectedIndex s)"
    using assms
    by (cases k)
      (simp_all add: dispatch_def handleKey_def bootEntry_def split: option.splits list.splits)
  finally show ?thesis .
qed

lemma action_after_key:
  assumes "theme_of s = Some t" "\<not> showOptions s" "activeRow s = ActionsRow"
  shows "actionIndex (app_step s (KeyDown k))
           = (case k of
                ArrowLeft \<Rightarrow> prevIndex (actionIndex s) (actions_of s)
              | ArrowRight \<Rightarrow> nextIndex (actionIndex s) (actions_of s)
              | _ \<Rightarrow> actionIndex s)"
proof -
  have "actionIndex (app_step s (KeyDown k)) = actionIndex (after (dispatch s (KeyDown k)))"
    by (subst app_step_key_closed[OF assms(2)]) simp
  also have "\<dots> = (case k of
                ArrowLeft \<Rightarrow> prevIndex (actionIndex s) (actions_of s)
              | ArrowRight \<Rightarrow> nextIndex (actionIndex s) (actions_of s)
              | _ \<Rightarrow> actionIndex s)"
    using assms
    by (cases k)
      (simp_all add: dispatch_def handleKey_def openOptions_def split: option.splits)
  finally show ?thesis .
qed

lemma option_after_key:
  assumes "theme_of s = Some t" "showOptions s"
  shows "optionIndex (app_step s (KeyDown k))
           = (case k of
                ArrowUp \<Rightarrow> prevIndex (optionIndex s) (themes s)
              | ArrowDown \<Rightarrow> nextIndex (optionIndex s) (themes s)
              | _ \<Rightarrow> optionIndex s)"
  using assms
  by (cases k)
    (simp_all add: app_step_def settle_optionIndex dispatch_def handleKey_def
      split: option.splits)

lemma bootloaderIndex_setPhase: "bootloaderIndex (setPhase p s) = bootloaderIndex s"
  by (simp add: setPhase_def)

lemma bootloader_after_key:
  assumes "mounted x" "phase x = Bootloader"
  shows "bootloaderIndex (xp_step users x (XpKey k))
           = (case k of
                ArrowUp \<Rightarrow> prevIndex (bootloaderIndex x) bootOptions
              | ArrowDown \<Rightarrow> nextIndex (bootloaderIndex x) bootOptions
              | _ \<Rightarrow> bootloaderIndex x)"
  using assms
  by (cases k) (simp_all add: xp_step_def handleKeyDown_def bootloaderIndex_setPhase)

text \<open>
  C8. The new index of a row is determined by the key, the row's current index and the
  row's length alone: two states that agree on these (and on which row has the focus)
  get the same new index from the same key, however they differ otherwise. This holds
  for \<open>moveEntries\<close> and \<open>moveActions\<close>, for the three rows of the configurable picker
  under every key, and for the option list of the XP boot loader.
\<close>

theorem index_update_depends_on_inputs_only:
  "(st_selectedIndex a = st_selectedIndex b
      \<and> length (st_entries (static_theme a)) = length (st_entries (static_theme b)) \<longrightarrow>
      st_selectedIndex (moveEntries d a) = st_selectedIndex (moveEntries d b))
   \<and> (st_actionIndex a = st_actionIndex b
      \<and> length (st_actions (static_theme a)) = length (st_actions (static_theme b)) \<longrightarrow>
      st_actionIndex (moveActions d a) = st_actionIndex (moveActions d b))
   \<and> (theme_of p = Some tp \<and> theme_of q = Some tq \<and> \<not> showOptions p \<and> \<not> showOptions q
      \<and> activeRow p = EntriesRow \<and> activeRow q = EntriesRow
      \<and> selectedIndex p = selectedIndex q
      \<and> length (entries_of p) = length (entries_of q) \<longrightarrow>
      selectedIndex (app_step p (KeyDown k)) = selectedIndex (app_step q (KeyDown k)))
   \<and> (theme_of p = Some tp \<and> theme_of q = Some tq \<and> \<not> showOptions p \<and> \<not> showOptions q
      \<and> activeRow p = ActionsRow \<and> activeRow q = ActionsRow
      \<and> actionIndex p = actionIndex q
      \<and> length (actions_of p) = length (actions_of q) \<longrightarrow>
      actionIndex (app_step p (KeyDown k)) = actionIndex (app_step q (KeyDown k)))
   \<and> (theme_of p = Some tp \<and> theme_of q = Some tq \<and> showOptions p \<and> showOptions q
      \<and> optionIndex p = optionIndex q
      \<and> length (themes p) = length (themes q) \<longrightarrow>
      optionIndex (app_step p (KeyDown k)) = optionIndex (app_step q (KeyDown k)))
   \<and> (mounted x \<and> mounted y \<and> phase x = Bootloader \<and> phase y = Bootloader
      \<and> bootloaderIndex x = bootloaderIndex y \<longrightarrow>
      bootloaderIndex (xp_step us x (XpKey k)) = bootloaderIndex (xp_step vs y (XpKey k)))"
proof (intro conjI impI; elim conjE)
  assume "st_selectedIndex a = st_selectedIndex b"
    "length (st_entries (static_theme a)) = length (st_entries (static_theme b))"
  then show "st_selectedIndex (moveEntries d a) = st_selectedIndex (moveEntries d b)"
    by (simp add: moveEntries_def js_length_def Let_def)
next
  assume "st_actionIndex a = st_actionIndex b"
    "length (st_actions (static_theme a)) = length (st_actions (static_theme b))"
  then show "st_actionIndex (moveActions d a) = st_actionIndex (moveActions d b)"
    by (simp add: moveActions_def js_length_def Let_def)
next
  assume "theme_of p = Some tp" "theme_of q = Some tq" "\<not> showOptions p" "\<not> showOptions q"
    "activeRow p = EntriesRow" "activeRow q = EntriesRow" "selectedIndex p = selectedIndex q"
    "length (entries_of p) = length (entries_of q)"
  then show "selectedIndex (app_step p (KeyDown k)) = selectedIndex (app_step q (KeyDown k))"
    using prevIndex_length[of "entries_of p" "entries_of q"]
      nextIndex_length[of "entries_of p" "entries_of q"]
    by (simp add: selected_after_key split: Key.splits)
next
  assume "theme_of p = Some tp" "theme_of q = Some tq" "\<not> showOptions p" "\<not> showOptions q"
    "activeRow p = ActionsRow" "activeRow q = ActionsRow" "actionIndex p = actionIndex q"
    "length (actions_of p) = length (actions_of q)"
  then show "actionIndex (app_step p (KeyDown k)) = actionIndex (app_step q (KeyDown k))"
    using prevIndex_length[of "actions_of p" "actions_of q"]
      nextIndex_length[of "actions_of p" "actions_of q"]
    by (simp add: action_after_key split: Key.splits)
next
  assume "theme_of p = Some tp" "theme_of q = Some tq" "showOptions p" "showOptions q"
    "optionIndex p = optionIndex q" "length (themes p) = length (themes q)"
  then show "optionIndex (app_step p (KeyDown k)) = optionIndex (app_step q (KeyDown k))"
    using prevIndex_length[of "themes p" "themes q"] nextIndex_length[of "themes p" "themes q"]
    by (simp add: option_after_key split: Key.splits)
next
  assume "mounted x" "mounted y" "phase x = Bootloader" "phase y = Bootloader"
    "bootloaderIndex x = bootloaderIndex y"
  then show "bootloaderIndex (xp_step us x (XpKey k)) = bootloaderIndex (xp_step vs y (XpKey k))"
    by (simp add: bootloader_after_key split: Key.splits)
qed

theorem index_update_depends_on_inputs_only_witness:
  "static_init \<noteq> static_init\<lparr> st_themeId := ModernDark, st_status := ''Options'' \<rparr>
   \<and> st_selectedIndex (moveEntries 1 static_init)
       = st_selectedIndex
           (moveEntries 1 (static_init\<lparr> st_themeId := ModernDark, st_status := ''Options'' \<rparr>))
   \<and> st_actionIndex (moveActions (- 1) static_init)
       = st_actionIndex
           (moveActions (- 1) (static_init\<lparr> st_themeId := ModernDark, st_status := ''Options'' \<rparr>))
   \<and> example_state \<noteq> unmatched_loaded
   \<and> selectedIndex (app_step example_state (KeyDown ArrowRight))
       = selectedIndex (app_step unmatched_loaded (KeyDown ArrowRight))
   \<and> actionIndex (app_step (example_state\<lparr> activeRow := ActionsRow \<rparr>) (KeyDown ArrowLeft))
       = actionIndex (app_step (unmatched_loaded\<lparr> activeRow := ActionsRow \<rparr>) (KeyDown ArrowLeft))
   \<and> optionIndex (app_step (example_state\<lparr> showOptions := True \<rparr>) (KeyDown ArrowDown))
       = optionIndex (app_step (example_state\<lparr> showOptions := True, status := [] \<rparr>)
           (KeyDown ArrowDown))
   \<and> bootloaderIndex (xp_step defaultUsers (xp_run defaultUsers [PostDone]) (XpKey ArrowUp))
       = bootloaderIndex (xp_step [] (xp_run defaultUsers [PostDone, CountdownTick]) (XpKey ArrowUp))"
proof -
  let ?b = "static_init\<lparr> st_themeId := ModernDark, st_status := ''Options'' \<rparr>"
  have sa: "length (st_entries (static_theme ?b)) = 2" "length (st_actions (static_theme ?b)) = 6"
    by (simp_all add: static_theme_def static_themes_def)
  have ne: "static_init \<noteq> ?b" "example_state \<noteq> unmatched_loaded"
    by (simp_all add: static_init_def example_state_def unmatched_loaded_def)
  have th: "theme_of (example_state\<lparr> activeRow := ActionsRow \<rparr>) = theme_of example_state"
    "theme_of (unmatched_loaded\<lparr> activeRow := ActionsRow \<rparr>) = theme_of unmatched_loaded"
    "theme_of (example_state\<lparr> showOptions := True \<rparr>) = theme_of example_state"
    "theme_of (example_state\<lparr> showOptions := True, status := [] \<rparr>) = theme_of example_state"
    by (simp_all add: theme_of_def)
  have ac: "actions_of (example_state\<lparr> activeRow := ActionsRow \<rparr>) = actions_of example_state"
    "actions_of (unmatched_loaded\<lparr> activeRow := ActionsRow \<rparr>) = actions_of unmatched_loaded"
    by (simp_all add: actions_of_def th)
  have f: "\<not> showOptions example_state" "\<not> showOptions unmatched_loaded"
    "activeRow example_state = EntriesRow" "activeRow unmatched_loaded = EntriesRow"
    "selectedIndex example_state = Num 0" "selectedIndex unmatched_loaded = Num 0"
    "actionIndex example_state = Num 0" "actionIndex unmatched_loaded = Num 0"
    by (simp_all add: example_state_def unmatched_loaded_def)
  have x: "xp_run defaultUsers [PostDone, CountdownTick]
      = xp_mount\<lparr> phase := Bootloader, timers := [CountdownInterval], countdown := 4 \<rparr>"
    using xp_run_snoc[of defaultUsers "[PostDone]" CountdownTick]
    by (simp add: login_trace_states xp_step_def xp_mount_def)
  have m: "mounted xp_mount" "bootloaderIndex xp_mount = Num 0" by (simp_all add: xp_mount_def)
  have c1: "st_selectedIndex (moveEntries 1 static_init) = st_selectedIndex (moveEntries 1 ?b)"
    using index_update_depends_on_inputs_only[where a = static_init and b = ?b and d = 1,
        THEN conjunct1]
    by (simp add: sa static_init_rows)
  have c2: "st_actionIndex (moveActions (- 1) static_init) = st_actionIndex (moveActions (- 1) ?b)"
    using index_update_depends_on_inputs_only[where a = static_init and b = ?b and d = "- 1",
        THEN conjunct2, THEN conjunct1]
    by (simp add: sa static_init_rows)
  have c3: "selectedIndex (app_step example_state (KeyDown ArrowRight))
       = selectedIndex (app_step unmatched_loaded (KeyDown ArrowRight))"
    using index_update_depends_on_inputs_only[where p = example_state and q = unmatched_loaded
        and tp = "buildCloverTheme ''demo''" and tq = "buildCloverTheme ''demo''"
        and k = ArrowRight, THEN conjunct2, THEN conjunct2, THEN conjunct1]
    by (simp add: f example_state_rows unmatched_theme unmatched_rows buildCloverTheme_lengths)
  have c4: "actionIndex (app_step (example_state\<lparr> activeRow := ActionsRow \<rparr>) (KeyDown ArrowLeft))
       = actionIndex (app_step (unmatched_loaded\<lparr> activeRow := ActionsRow \<rparr>) (KeyDown ArrowLeft))"
    using index_update_depends_on_inputs_only[where p = "example_state\<lparr> activeRow := ActionsRow \<rparr>"
        and q = "unmatched_loaded\<lparr> activeRow := ActionsRow \<rparr>"
        and tp = "buildCloverTheme ''demo''" and tq = "buildCloverTheme ''demo''"
        and k = ArrowLeft, THEN conjunct2, THEN conjunct2, THEN conjunct2, THEN conjunct1]
    by (simp add: f th ac example_state_rows unmatched_theme unmatched_rows
        buildCloverTheme_lengths)
  have c5: "optionIndex (app_step (example_state\<lparr> showOptions := True \<rparr>) (KeyDown ArrowDown))
       = optionIndex (app_step (example_state\<lparr> showOptions := True, status := [] \<rparr>)
           (KeyDown ArrowDown))"
    using index_update_depends_on_inputs_only[where p = "example_state\<lparr> showOptions := True \<rparr>"
        and q = "example_state\<lparr> showOptions := True, status := [] \<rparr>"
        and tp = "buildCloverTheme ''demo''" and tq = "buildCloverTheme ''demo''"
        and k = ArrowDown,
        THEN conjunct2, THEN conjunct2, THEN conjunct2, THEN conjunct2, THEN conjunct1]
    by (simp add: th example_state_rows)
  have c6: "bootloaderIndex (xp_step defaultUsers (xp_run defaultUsers [PostDone]) (XpKey ArrowUp))
       = bootloaderIndex (xp_step [] (xp_run defaultUsers [PostDone, CountdownTick]) (XpKey ArrowUp))"
    using index_update_depends_on_inputs_only[where x = "xp_run defaultUsers [PostDone]"
        and y = "xp_run defaultUsers [PostDone, CountdownTick]" and k = ArrowUp
        and us = defaultUsers and vs = "[]",
        THEN conjunct2, THEN conjunct2, THEN conjunct2, THEN conjunct2, THEN conjunct2]
    by (simp add: x m login_trace_states)
  from ne c1 c2 c3 c4 c5 c6 show ?thesis by blast
qed

section \<open>The example picker and the keys of the options modal\<close>

lemma example_state_loaded: "app_run [Fetched (Some clover_config)] = example_state"
proof -
  have all: "allThemes [] (Some [''demo'', ''other''])
      = [buildCloverTheme ''demo'', buildCloverTheme ''other'']"
    by (simp add: allThemes_def)
  have dt: "defaultTheme clover_config = ''clover-demo''"
    "cfg_themes clover_config = Some []"
    "cloverThemes clover_config = Some [''demo'', ''other'']"
    by (simp_all add: clover_config_def)
  have f: "fetchPending app_init" by (simp add: app_init_def)
  have "fetchResolved clover_config (app_init\<lparr> fetchPending := False \<rparr>) = Done example_state"
    unfolding fetchResolved_def dt
    by (simp add: all buildCloverTheme_sel first_entry first_entry_name entries_nonempty)
       (simp add: app_init_def example_state_def)
  then have d: "after (dispatch app_init (Fetched (Some clover_config))) = example_state"
    by (simp add: dispatch_def f)
  have es: "entries_of example_state = the (entries (buildCloverTheme ''demo''))"
    by (simp add: entries_of_def example_state_rows buildCloverTheme_sel)
  have r: "resetEffect example_state example_state = example_state"
    by (simp add: resetEffect_def example_state_rows es first_entry first_entry_name)
      (simp add: example_state_def)
  have st: "statusEffect example_state example_state = example_state"
    by (simp add: statusEffect_def example_state_rows es first_entry_name)
       (simp add: example_state_def buildCloverTheme_lengths first_entry_name)
  have ids: "themeId example_state \<noteq> themeId app_init"
    by (simp add: example_state_def app_init_def)
  have "runEffects app_init example_state = example_state"
    by (simp add: runEffects_def ids r st)
  moreover have "runEffects example_state example_state = example_state"
    by (simp add: runEffects_def)
  ultimately have "settle app_init example_state = example_state" by (simp add: settle_def)
  then show ?thesis
    using app_run_snoc[of "[]" "Fetched (Some clover_config)"]
    by (simp add: app_run_Nil app_step_def d)
qed

lemma settle_same_deps:
  assumes "themeId r = themeId p" "length (themes r) = length (themes p)"
    and "selectedIndex r = selectedIndex p" "activeRow r = activeRow p"
  shows "settle p r = r"
  using assms by (simp add: settle_def runEffects_def)

lemma modal_keys:
  assumes "theme_of s = Some t" "showOptions s"
  shows "app_step s (KeyDown ArrowUp) = s\<lparr> optionIndex := prevIndex (optionIndex s) (themes s) \<rparr>"
    and "app_step s (KeyDown ArrowDown) = s\<lparr> optionIndex := nextIndex (optionIndex s) (themes s) \<rparr>"
    and "app_step s (KeyDown ArrowLeft) = s"
    and "app_step s (KeyDown ArrowRight) = s"
    and "app_step s (KeyDown Escape) = s\<lparr> showOptions := False \<rparr>"
    and "js_nth (themes s) (optionIndex s) = Some h \<Longrightarrow>
           themeId (app_step s (KeyDown Enter)) = theme_id h
           \<and> \<not> showOptions (app_step s (KeyDown Enter))"
    and "js_nth (themes s) (optionIndex s) = None \<Longrightarrow> app_step s (KeyDown Enter) = s"
proof -
  show "app_step s (KeyDown ArrowUp) = s\<lparr> optionIndex := prevIndex (optionIndex s) (themes s) \<rparr>"
    using assms by (simp add: app_step_def dispatch_def handleKey_def settle_same_deps)
  show "app_step s (KeyDown ArrowDown) = s\<lparr> optionIndex := nextIndex (optionIndex s) (themes s) \<rparr>"
    using assms by (simp add: app_step_def dispatch_def handleKey_def settle_same_deps)
  show "app_step s (KeyDown ArrowLeft) = s"
    using assms by (simp add: app_step_def dispatch_def handleKey_def settle_refl)
  show "app_step s (KeyDown ArrowRight) = s"
    using assms by (simp add: app_step_def dispatch_def handleKey_def settle_refl)
  show "app_step s (KeyDown Escape) = s\<lparr> showOptions := False \<rparr>"
    using assms by (simp add: app_step_def dispatch_def handleKey_def settle_same_deps)
  show "themeId (app_step s (KeyDown Enter)) = theme_id h
           \<and> \<not> showOptions (app_step s (KeyDown Enter))"
    if "js_nth (themes s) (optionIndex s) = Some h"
  proof -
    have d: "after (dispatch s (KeyDown Enter)) = s\<lparr> themeId := theme_id h, showOptions := False \<rparr>"
      using assms that by (simp add: dispatch_def handleKey_def)
    show ?thesis by (simp add: app_step_def d settle_modal_fields)
  qed
  show "app_step s (KeyDown Enter) = s" if "js_nth (themes s) (optionIndex s) = None"
    using assms that by (simp add: app_step_def dispatch_def handleKey_def settle_refl)
qed

end
